theory Spec2Isabelle
  imports Main
begin

section \<open>The headless update run of chromadesk/main.py\<close>

text \<open>
  The development embeds the \<^verbatim>\<open>--headless\<close> branch of \<^verbatim>\<open>main()\<close>
  (src/chromadesk/main.py, lines 115-242). The branch is straight-line code with nested
  conditionals, one outer \<^verbatim>\<open>try/except Exception\<close> and one inner one around the
  notification. Everything it does is a call into a collaborator (the modules
  \<^verbatim>\<open>chromadesk.core.config\<close>, \<^verbatim>\<open>bing\<close>, \<^verbatim>\<open>downloader\<close>, \<^verbatim>\<open>history\<close>,
  \<^verbatim>\<open>wallpaper\<close>, the configuration object, the clock and the file system) or a log
  line. The collaborators are parameters of the model: an environment gives, for each
  call and its arguments, what the call returns or raises. Every collaborator is called at
  most once in a run, so quantifying over all environments covers every behaviour of the
  collaborators. The run yields the exit code and the trace of calls and log lines, in
  program order. The logging calls themselves are taken to return normally.
\<close>

subsection \<open>Exceptions and results\<close>

text \<open>
  A Python exception that is an instance of \<^verbatim>\<open>Exception\<close>, with the text that
  \<^verbatim>\<open>str(e)\<close> gives for it. \<open>RuntimeError\<close> and \<open>KeyError\<close> are the two that main.py
  raises itself (line 168 and the subscript \<^verbatim>\<open>bing_info["date"]\<close> of line 174);
  \<open>ImportError\<close> is the one the import guard of line 126 catches; \<open>OtherError\<close>
  stands for any other exception class.
\<close>

datatype error =
    RuntimeError string
  | KeyError string
  | ImportError string
  | OtherError string

text \<open>\<^verbatim>\<open>str(e)\<close>, as the f-strings of lines 127, 219 and 235 render the exception.\<close>

fun str_error :: "error \<Rightarrow> string" where
  "str_error (RuntimeError m) = m"
| "str_error (KeyError m) = m"
| "str_error (ImportError m) = m"
| "str_error (OtherError m) = m"

text \<open>
  The \<^verbatim>\<open>KeyError\<close> of a subscript with a missing key: its text is the \<^verbatim>\<open>repr\<close> of
  the key, which for the two keys main.py subscripts is the key between apostrophes.
\<close>

definition missing_key :: "string \<Rightarrow> error" where
  "missing_key k = KeyError ([CHR 0x27] @ k @ [CHR 0x27])"

type_synonym 'a result = "error + 'a"

subsection \<open>Data\<close>

text \<open>
  The dictionary returned by \<^verbatim>\<open>fetch_bing_wallpaper_info\<close>, restricted to the three
  keys main.py reads. \<open>None\<close> is an absent key; a key that is present holds a string.
\<close>

record bing_info =
  date :: "string option"
  title :: "string option"
  full_url :: "string option"

text \<open>
  The configuration object returned by \<^verbatim>\<open>load_config()\<close>, as main.py observes it:
  the result of each of its four getter calls, fallback included.
  \<^item> \<open>enabled\<close>: \<^verbatim>\<open>config.getboolean("Settings", "enabled", fallback=False)\<close>
  \<^item> \<open>region\<close>: \<^verbatim>\<open>config.get("Settings", "region", fallback="en-US")\<close>
  \<^item> \<open>last_update_date\<close>: \<^verbatim>\<open>config.get("State", "last_update_date", fallback="")\<close>
  \<^item> \<open>keep_history\<close>: \<^verbatim>\<open>config.getint("Settings", "keep_history", fallback=7)\<close>
  A getter raises (\<open>Inl\<close>) when the stored text does not convert.
\<close>

record config =
  enabled :: "bool result"
  region :: "string result"
  last_update_date :: "string result"
  keep_history :: "int result"

text \<open>
  The collaborators of one run. Return values that main.py only tests for truth are
  booleans. \<open>today\<close> is \<^verbatim>\<open>date.today().isoformat()\<close>; \<open>is_file\<close> is
  \<^verbatim>\<open>save_path.is_file()\<close>; \<open>import_core\<close> is the import block of lines 118-125.
\<close>

record env =
  import_core :: "unit result"
  load_config :: "config result"
  fetch_bing_wallpaper_info :: "string \<Rightarrow> bing_info option result"
  today :: string
  ensure_wallpaper_dir :: "bool result"
  get_wallpaper_dir :: "string result"
  get_bing_filename :: "string \<Rightarrow> string \<Rightarrow> string result"
  is_file :: "string \<Rightarrow> bool result"
  download_image :: "string \<Rightarrow> string \<Rightarrow> bool result"
  set_gnome_wallpaper :: "string \<Rightarrow> bool result"
  set_setting :: "string \<Rightarrow> string \<Rightarrow> string \<Rightarrow> bool result"
  cleanup_wallpaper_history :: "int \<Rightarrow> int result"
  send_notification :: "string \<Rightarrow> string \<Rightarrow> unit result"

subsection \<open>The trace\<close>

datatype level = INFO | WARNING | ERROR | CRITICAL

datatype call =
    LoadConfig
  | FetchBingWallpaperInfo string
  | EnsureWallpaperDir
  | GetWallpaperDir
  | GetBingFilename string string
  | IsFile string
  | DownloadImage string string
  | SetGnomeWallpaper string
  | SetSetting string string string
  | CleanupWallpaperHistory int
  | SendNotification string string

datatype event = Call call | Log level string

text \<open>
  A piece of the program gives its result, or the exception it raised, together with the
  events it produced, in order.
\<close>

type_synonym 'a prog = "'a result \<times> event list"

definition ret :: "'a \<Rightarrow> 'a prog" where
  "ret x = (Inr x, [])"

definition raise :: "error \<Rightarrow> 'a prog" where
  "raise ex = (Inl ex, [])"

text \<open>Sequencing: an exception of the first part skips the second.\<close>

definition seq :: "'a prog \<Rightarrow> ('a \<Rightarrow> 'b prog) \<Rightarrow> 'b prog" where
  "seq m f =
     (case fst m of
        Inr x \<Rightarrow> (fst (f x), snd m @ snd (f x))
      | Inl ex \<Rightarrow> (Inl ex, snd m))"

text \<open>\<^verbatim>\<open>try: m  except Exception as ex: h\<close>\<close>

definition try_except :: "'a prog \<Rightarrow> (error \<Rightarrow> 'a prog) \<Rightarrow> 'a prog" where
  "try_except m h =
     (case fst m of
        Inr x \<Rightarrow> (Inr x, snd m)
      | Inl ex \<Rightarrow> (fst (h ex), snd m @ snd (h ex)))"

text \<open>A collaborator call is recorded, and returns or raises as the environment says.\<close>

definition call :: "call \<Rightarrow> 'a result \<Rightarrow> 'a prog" where
  "call c r = (r, [Call c])"

text \<open>A getter of the in-memory configuration object: no event.\<close>

definition getter :: "'a result \<Rightarrow> 'a prog" where
  "getter r = (r, [])"

definition logger :: "level \<Rightarrow> string \<Rightarrow> unit prog" where
  "logger l msg = (Inr (), [Log l msg])"

subsection \<open>Python renderings used by the f-strings\<close>

text \<open>\<^verbatim>\<open>bing_info.get('date')\<close> inside an f-string: the value, or \<^verbatim>\<open>None\<close>.\<close>

definition str_opt :: "string option \<Rightarrow> string" where
  "str_opt v = (case v of None \<Rightarrow> ''None'' | Some s \<Rightarrow> s)"

definition str_bool :: "bool \<Rightarrow> string" where
  "str_bool b = (if b then ''True'' else ''False'')"

text \<open>
  \<^verbatim>\<open>wallpaper_dir / filename\<close> (line 176), rendered as text: the directory, a slash
  and the file name. This is what pathlib gives for a directory other than the root and
  a plain file name (not empty, not absolute, no dot component); for other names
  pathlib normalises the result. No property below depends on how the two are joined.
\<close>

definition joinpath :: "string \<Rightarrow> string \<Rightarrow> string" where
  "joinpath d f = d @ ''/'' @ f"

text \<open>Truth of \<^verbatim>\<open>bing_info and bing_info.get("full_url")\<close> (line 147).\<close>

definition has_full_url :: "bing_info option \<Rightarrow> bool" where
  "has_full_url r =
     (case r of None \<Rightarrow> False
      | Some info \<Rightarrow> (case full_url info of None \<Rightarrow> False | Some u \<Rightarrow> u \<noteq> []))"

subsection \<open>The steps of the run\<close>

text \<open>Step 8, lines 211-220: the notification, with its own handler.\<close>

definition notify_step :: "env \<Rightarrow> bing_info \<Rightarrow> unit prog" where
  "notify_step e info =
     try_except
       (seq (ret (case title info of None \<Rightarrow> ''Unknown Title'' | Some s \<Rightarrow> s)) (\<lambda>ttl.
        seq (call (SendNotification ''ChromaDesk Update''
                     (''Wallpaper updated successfully to: '' @ ttl))
                  (send_notification e ''ChromaDesk Update''
                     (''Wallpaper updated successfully to: '' @ ttl))) (\<lambda>_.
        ret ())))
       (\<lambda>notify_err.
          logger WARNING (''Headless: Failed to send notification: '' @ str_error notify_err))"

text \<open>
  Steps 7 and 8, lines 200-222: after the wallpaper was set. The value returned by
  \<^verbatim>\<open>set_setting\<close> and by \<^verbatim>\<open>cleanup_wallpaper_history\<close> is dropped.
\<close>

definition record_step :: "env \<Rightarrow> config \<Rightarrow> bing_info \<Rightarrow> string \<Rightarrow> bool prog" where
  "record_step e cfg info today_str =
     seq (logger INFO ''Headless: Wallpaper set successfully.'') (\<lambda>_.
     seq (call (SetSetting ''State'' ''last_update_date'' today_str)
               (set_setting e ''State'' ''last_update_date'' today_str)) (\<lambda>_.
     seq (getter (keep_history cfg)) (\<lambda>keep_count.
     seq (call (CleanupWallpaperHistory keep_count)
               (cleanup_wallpaper_history e keep_count)) (\<lambda>_.
     seq (notify_step e info) (\<lambda>_.
     ret True)))))"

text \<open>Step 6, lines 191-226: what follows the download decision.\<close>

definition apply_step ::
  "env \<Rightarrow> config \<Rightarrow> bing_info \<Rightarrow> string \<Rightarrow> string \<Rightarrow> bool \<Rightarrow> bool prog" where
  "apply_step e cfg info today_str save_path download_ok =
     (if download_ok then
        seq (logger INFO ''Headless: Download successful (or file existed).'') (\<lambda>_.
        seq (logger INFO (''Headless: Setting wallpaper to '' @ save_path)) (\<lambda>_.
        seq (call (SetGnomeWallpaper save_path) (set_gnome_wallpaper e save_path)) (\<lambda>set_ok.
        if set_ok then record_step e cfg info today_str
        else seq (logger ERROR ''Headless: Failed to set wallpaper.'') (\<lambda>_. ret False))))
      else seq (logger ERROR ''Headless: Failed to download image.'') (\<lambda>_. ret False))"

text \<open>Step 5, lines 163-189: the directory, the file name, reuse or download.\<close>

definition download_step :: "env \<Rightarrow> config \<Rightarrow> bing_info \<Rightarrow> string \<Rightarrow> string \<Rightarrow> bool prog" where
  "download_step e cfg info today_str last_date =
     seq (logger INFO (''Headless: Last update was '' @ last_date
                        @ '', proceeding with update for '' @ today_str @ ''.'')) (\<lambda>_.
     seq (call EnsureWallpaperDir (ensure_wallpaper_dir e)) (\<lambda>dir_ok.
     seq (if \<not> dir_ok then raise (RuntimeError ''Headless: Cannot create wallpaper directory.'')
          else ret ()) (\<lambda>_.
     seq (call GetWallpaperDir (get_wallpaper_dir e)) (\<lambda>wallpaper_dir.
     seq (case date info of None \<Rightarrow> raise (missing_key ''date'') | Some d \<Rightarrow> ret d) (\<lambda>d.
     seq (case full_url info of None \<Rightarrow> raise (missing_key ''full_url'') | Some u \<Rightarrow> ret u) (\<lambda>u.
     seq (call (GetBingFilename d u) (get_bing_filename e d u)) (\<lambda>filename.
     seq (ret (joinpath wallpaper_dir filename)) (\<lambda>save_path.
     seq (call (IsFile save_path) (is_file e save_path)) (\<lambda>exists.
     seq (if exists then
            seq (logger INFO (''Headless: Image '' @ filename
                               @ '' already exists. Using existing file.'')) (\<lambda>_.
            ret True)
          else
            seq (logger INFO (''Headless: Downloading image to '' @ save_path @ ''...'')) (\<lambda>_.
            call (DownloadImage u save_path) (download_image e u save_path))) (\<lambda>download_ok.
     apply_step e cfg info today_str save_path download_ok))))))))))"

text \<open>Step 4, lines 148-162: the freshness decision, for a fetched result with a URL.\<close>

definition freshness_step :: "env \<Rightarrow> config \<Rightarrow> bing_info \<Rightarrow> bool prog" where
  "freshness_step e cfg info =
     seq (logger INFO (''Headless: Successfully fetched Bing info for date ''
                        @ str_opt (date info))) (\<lambda>_.
     seq (ret (today e)) (\<lambda>today_str.
     seq (getter (last_update_date cfg)) (\<lambda>last_date.
     if last_date = today_str then
       seq (logger INFO (''Headless: Wallpaper already updated today ('' @ today_str
                          @ ''). Skipping.'')) (\<lambda>_.
       ret True)
     else download_step e cfg info today_str last_date)))"

text \<open>
  Lines 133-231: the body of the outer \<^verbatim>\<open>try\<close>. Its value is the variable
  \<^verbatim>\<open>success\<close> at the end of the block. Where \<open>has_full_url\<close> holds the fetched
  value is a dictionary, so the \<open>None\<close> case under it is never taken.
\<close>

definition update_body :: "env \<Rightarrow> bool prog" where
  "update_body e =
     seq (logger INFO ''Headless: Starting daily update check.'') (\<lambda>_.
     seq (call LoadConfig (load_config e)) (\<lambda>cfg.
     seq (getter (enabled cfg)) (\<lambda>on.
     if on then
       seq (logger INFO ''Headless: Daily updates are enabled in config.'') (\<lambda>_.
       seq (getter (region cfg)) (\<lambda>rgn.
       seq (logger INFO (''Headless: Fetching Bing info for region: '' @ rgn)) (\<lambda>_.
       seq (call (FetchBingWallpaperInfo rgn) (fetch_bing_wallpaper_info e rgn)) (\<lambda>fetched.
       if has_full_url fetched then
         (case fetched of
            Some info \<Rightarrow> freshness_step e cfg info
          | None \<Rightarrow> ret False)
       else
         seq (logger ERROR ''Headless: Failed to fetch Bing wallpaper info.'') (\<lambda>_.
         ret False)))))
     else
       seq (logger INFO ''Headless: Daily updates are disabled in config. Skipping.'') (\<lambda>_.
       ret True))))"

text \<open>
  Lines 131-242: the body under the handler of line 233, which logs the exception and
  sets \<^verbatim>\<open>success = False\<close>; then the final log line and the exit code.
\<close>

definition update_logic :: "env \<Rightarrow> int prog" where
  "update_logic e =
     seq (try_except (update_body e)
            (\<lambda>ex. seq (logger CRITICAL
                          (''Headless: An error occurred during the update process: ''
                            @ str_error ex)) (\<lambda>_.
                   ret False))) (\<lambda>success.
     seq (logger INFO (''Headless update finished. Success: '' @ str_bool success)) (\<lambda>_.
     ret (if success then 0 else 1)))"

text \<open>
  Lines 115-128: the import guard catches \<^verbatim>\<open>ImportError\<close> only; any other exception
  of the import block leaves \<^verbatim>\<open>main\<close>.
\<close>

definition headless :: "env \<Rightarrow> int prog" where
  "headless e =
     seq (logger INFO ''Running in --headless update mode'') (\<lambda>_.
     seq (try_except (seq (getter (import_core e)) (\<lambda>_. ret True))
            (\<lambda>ex. case ex of
                     ImportError m \<Rightarrow>
                       seq (logger CRITICAL
                              (''Failed to import core components for headless mode: ''
                                @ str_error ex)) (\<lambda>_.
                       ret False)
                   | _ \<Rightarrow> raise ex)) (\<lambda>imported.
     if imported then update_logic e else ret 1))"

text \<open>
  \<^verbatim>\<open>main()\<close> called with \<^verbatim>\<open>--headless\<close> and neither \<^verbatim>\<open>--internal-set-config\<close>
  nor \<^verbatim>\<open>--version\<close> (both are handled first, lines 77 and 106): the value returned, or
  the exception that leaves \<^verbatim>\<open>main\<close>, and the trace.
\<close>

definition main :: "env \<Rightarrow> int result \<times> event list" where
  "main e = headless e"

definition exit_code :: "env \<Rightarrow> int result" where
  "exit_code e = fst (main e)"

definition trace :: "env \<Rightarrow> event list" where
  "trace e = snd (main e)"

subsection \<open>Reading a trace\<close>

text \<open>The collaborator calls of a trace, in order, without the log lines.\<close>

fun calls :: "event list \<Rightarrow> call list" where
  "calls [] = []"
| "calls (Call c # tr) = c # calls tr"
| "calls (Log l msg # tr) = calls tr"

text \<open>The messages logged at one level, in order.\<close>

fun logs_at :: "level \<Rightarrow> event list \<Rightarrow> string list" where
  "logs_at l [] = []"
| "logs_at l (Call c # tr) = logs_at l tr"
| "logs_at l (Log l' msg # tr) = (if l' = l then msg # logs_at l tr else logs_at l tr)"

text \<open>The calls the claims count: network download, apply, state write, pruning.\<close>

fun is_download :: "call \<Rightarrow> bool" where
  "is_download (DownloadImage u p) = True"
| "is_download _ = False"

fun is_apply :: "call \<Rightarrow> bool" where
  "is_apply (SetGnomeWallpaper p) = True"
| "is_apply _ = False"

fun is_state_write :: "call \<Rightarrow> bool" where
  "is_state_write (SetSetting s k v) = True"
| "is_state_write _ = False"

fun is_prune :: "call \<Rightarrow> bool" where
  "is_prune (CleanupWallpaperHistory k) = True"
| "is_prune _ = False"

fun is_filename_query :: "call \<Rightarrow> bool" where
  "is_filename_query (GetBingFilename d u) = True"
| "is_filename_query _ = False"

text \<open>The text of the notification (lines 212-216).\<close>

definition notification_body :: "bing_info \<Rightarrow> string" where
  "notification_body info =
     ''Wallpaper updated successfully to: ''
       @ (case title info of None \<Rightarrow> ''Unknown Title'' | Some s \<Rightarrow> s)"

subsection \<open>Concrete runs\<close>

text \<open>
  The scenario of the specification's last test: updates enabled, region en-US, no update
  recorded yet, a fetched image dated 2024-01-01, every collaborator succeeding,
  seven files kept. The run takes place on 2024-01-02.
\<close>

definition cfg_scenario :: config where
  "cfg_scenario =
     \<lparr>enabled = Inr True, region = Inr ''en-US'', last_update_date = Inr [],
      keep_history = Inr 7\<rparr>"

definition info_scenario :: bing_info where
  "info_scenario =
     \<lparr>date = Some ''2024-01-01'', title = Some ''T'', full_url = Some ''https://x/img.jpg''\<rparr>"

definition env_scenario :: env where
  "env_scenario =
     \<lparr>import_core = Inr (),
      load_config = Inr cfg_scenario,
      fetch_bing_wallpaper_info = (\<lambda>rgn. Inr (Some info_scenario)),
      today = ''2024-01-02'',
      ensure_wallpaper_dir = Inr True,
      get_wallpaper_dir = Inr ''/wallpapers'',
      get_bing_filename = (\<lambda>d u. Inr (d @ ''_bing.jpg'')),
      is_file = (\<lambda>p. Inr False),
      download_image = (\<lambda>u p. Inr True),
      set_gnome_wallpaper = (\<lambda>p. Inr True),
      set_setting = (\<lambda>s k v. Inr True),
      cleanup_wallpaper_history = (\<lambda>keep. Inr 0),
      send_notification = (\<lambda>t b. Inr ())\<rparr>"

text \<open>The same run with daily updates switched off.\<close>

definition env_disabled :: env where
  "env_disabled = env_scenario\<lparr>load_config := Inr (cfg_scenario\<lparr>enabled := Inr False\<rparr>)\<rparr>"

text \<open>The same run when the fetched result carries no download URL.\<close>

definition env_no_url :: env where
  "env_no_url =
     env_scenario\<lparr>fetch_bing_wallpaper_info :=
       (\<lambda>rgn. Inr (Some (info_scenario\<lparr>full_url := None\<rparr>)))\<rparr>"

text \<open>
  A run on a day already recorded as updated, while the metadata service is down:
  the fetch raises.
\<close>

definition env_recorded_offline :: env where
  "env_recorded_offline =
     env_scenario\<lparr>load_config := Inr (cfg_scenario\<lparr>last_update_date := Inr ''2024-01-02''\<rparr>),
                  fetch_bing_wallpaper_info := (\<lambda>rgn. Inl (OtherError ''connection refused''))\<rparr>"


text \<open>The image file is already in the wallpaper directory.\<close>

definition env_existing_file :: env where
  "env_existing_file = env_scenario\<lparr>is_file := (\<lambda>p. Inr True)\<rparr>"

text \<open>
  The recorded date equals the date the fetched image reports (2024-01-01), not the
  day of the run (2024-01-02).
\<close>

definition env_image_date_recorded :: env where
  "env_image_date_recorded =
     env_scenario\<lparr>load_config := Inr (cfg_scenario\<lparr>last_update_date := Inr ''2024-01-01''\<rparr>)\<rparr>"

text \<open>The file exists and the apply call is rejected: nothing changes between two runs.\<close>

definition env_retry :: env where
  "env_retry = env_existing_file\<lparr>set_gnome_wallpaper := (\<lambda>p. Inr False)\<rparr>"

text \<open>The download fails and leaves no file.\<close>

definition env_download_fails :: env where
  "env_download_fails = env_scenario\<lparr>download_image := (\<lambda>u p. Inr False)\<rparr>"

text \<open>The state write raises; the state write returns false.\<close>

definition env_write_raises :: env where
  "env_write_raises = env_scenario\<lparr>set_setting := (\<lambda>s k v. Inl (OtherError ''disk full''))\<rparr>"

definition env_write_rejected :: env where
  "env_write_rejected = env_scenario\<lparr>set_setting := (\<lambda>s k v. Inr False)\<rparr>"

text \<open>Pruning raises.\<close>

definition env_prune_raises :: env where
  "env_prune_raises =
     env_scenario\<lparr>cleanup_wallpaper_history := (\<lambda>keep. Inl (OtherError ''permission denied''))\<rparr>"

text \<open>The stored \<^verbatim>\<open>keep_history\<close> is not an integer: \<^verbatim>\<open>getint\<close> raises.\<close>

definition env_bad_keep_history :: env where
  "env_bad_keep_history =
     env_scenario\<lparr>load_config :=
       Inr (cfg_scenario\<lparr>keep_history := Inl (OtherError ''invalid literal for int()'')\<rparr>)\<rparr>"

text \<open>Pruning raises and there is no notification service either.\<close>

definition env_prune_and_notify_raise :: env where
  "env_prune_and_notify_raise =
     env_prune_raises\<lparr>send_notification := (\<lambda>t b. Inl (OtherError ''no notification daemon''))\<rparr>"

text \<open>No notification service: \<^verbatim>\<open>send_notification\<close> raises.\<close>

definition env_notify_raises :: env where
  "env_notify_raises =
     env_scenario\<lparr>send_notification := (\<lambda>t b. Inl (OtherError ''no notification daemon''))\<rparr>"

text \<open>
  The run that follows the scenario on the same day, with the same metadata: the file is
  there and the configuration holds the date the first run wrote.
\<close>

definition env_second_run :: env where
  "env_second_run =
     env_existing_file\<lparr>load_config := Inr (cfg_scenario\<lparr>last_update_date := Inr ''2024-01-02''\<rparr>)\<rparr>"

section \<open>Reasoning about runs\<close>

subsection \<open>Traces and the sequencing operators\<close>

lemma calls_append [simp]: "calls (a @ b) = calls a @ calls b"
  by (induction a rule: calls.induct) simp_all

lemma logs_at_append [simp]: "logs_at l (a @ b) = logs_at l a @ logs_at l b"
  by (induction l a rule: logs_at.induct) simp_all

lemma fst_seq: "fst (seq m f) = (case fst m of Inr x \<Rightarrow> fst (f x) | Inl ex \<Rightarrow> Inl ex)"
  by (simp add: seq_def split: sum.splits)

lemma snd_seq: "snd (seq m f) = (case fst m of Inr x \<Rightarrow> snd m @ snd (f x) | Inl ex \<Rightarrow> snd m)"
  by (simp add: seq_def split: sum.splits)

lemma fst_try_except:
  "fst (try_except m h) = (case fst m of Inr x \<Rightarrow> Inr x | Inl ex \<Rightarrow> fst (h ex))"
  by (simp add: try_except_def split: sum.splits)

lemma snd_try_except:
  "snd (try_except m h) = (case fst m of Inr x \<Rightarrow> snd m | Inl ex \<Rightarrow> snd m @ snd (h ex))"
  by (simp add: try_except_def split: sum.splits)

lemma prims:
  "fst (ret x) = Inr x" "snd (ret x) = []"
  "fst (raise ex) = Inl ex" "snd (raise ex) = []"
  "fst (call c r) = r" "snd (call c r) = [Call c]"
  "fst (getter r) = r" "snd (getter r) = []"
  "fst (logger l s) = Inr ()" "snd (logger l s) = [Log l s]"
  by (simp_all add: ret_def raise_def call_def getter_def logger_def)

lemmas prog_simps = fst_seq snd_seq fst_try_except snd_try_except prims

subsection \<open>The run in terms of the body of the outer try\<close>

text \<open>
  Once the imports succeed, the exit code is 0 exactly when the body ends with
  \<^verbatim>\<open>success = True\<close>; an exception of the body is caught and counts as failure.
  The handler and the final log line call no collaborator.
\<close>

lemma exit_code_body:
  "import_core e = Inr () \<Longrightarrow>
   exit_code e = Inr (if fst (update_body e) = Inr True then 0 else 1)"
  unfolding exit_code_def main_def headless_def update_logic_def
  by (simp add: prog_simps split: sum.split error.split)

lemma calls_trace_body:
  "calls (trace e) =
     (case import_core e of Inr _ \<Rightarrow> calls (snd (update_body e)) | Inl _ \<Rightarrow> [])"
  unfolding trace_def main_def headless_def update_logic_def
  by (simp add: prog_simps split: sum.split error.split)

lemma trace_body:
  "import_core e = Inr () \<Longrightarrow>
   trace e = Log INFO ''Running in --headless update mode'' # snd (update_body e) @
     (case fst (update_body e) of
        Inl ex \<Rightarrow>
          [Log CRITICAL (''Headless: An error occurred during the update process: ''
                          @ str_error ex),
           Log INFO ''Headless update finished. Success: False'']
      | Inr b \<Rightarrow> [Log INFO (''Headless update finished. Success: '' @ str_bool b)])"
  unfolding trace_def main_def headless_def update_logic_def
  by (simp add: prog_simps str_bool_def split: sum.split error.split)

subsection \<open>The body up to the fetch\<close>

lemma body_disabled:
  "load_config e = Inr cfg \<Longrightarrow> enabled cfg = Inr False \<Longrightarrow>
   fst (update_body e) = Inr True \<and> calls (snd (update_body e)) = [LoadConfig]"
  unfolding update_body_def by (simp add: prog_simps)

lemma fst_body_enabled:
  "load_config e = Inr cfg \<Longrightarrow> enabled cfg = Inr True \<Longrightarrow> region cfg = Inr r \<Longrightarrow>
   fst (update_body e) =
     (case fetch_bing_wallpaper_info e r of
        Inl ex \<Rightarrow> Inl ex
      | Inr None \<Rightarrow> Inr False
      | Inr (Some info) \<Rightarrow>
          if has_full_url (Some info) then fst (freshness_step e cfg info) else Inr False)"
  unfolding update_body_def
  by (simp add: prog_simps has_full_url_def split: sum.split option.split)

lemma snd_body_enabled:
  "load_config e = Inr cfg \<Longrightarrow> enabled cfg = Inr True \<Longrightarrow> region cfg = Inr r \<Longrightarrow>
   snd (update_body e) =
     [Log INFO ''Headless: Starting daily update check.'', Call LoadConfig,
      Log INFO ''Headless: Daily updates are enabled in config.'',
      Log INFO (''Headless: Fetching Bing info for region: '' @ r),
      Call (FetchBingWallpaperInfo r)] @
     (case fetch_bing_wallpaper_info e r of
        Inl ex \<Rightarrow> []
      | Inr None \<Rightarrow> [Log ERROR ''Headless: Failed to fetch Bing wallpaper info.'']
      | Inr (Some info) \<Rightarrow>
          if has_full_url (Some info) then snd (freshness_step e cfg info)
          else [Log ERROR ''Headless: Failed to fetch Bing wallpaper info.''])"
  unfolding update_body_def
  by (simp add: prog_simps has_full_url_def split: sum.split option.split)

subsection \<open>Each step as a decision tree over the collaborators' answers\<close>

lemma fst_notify: "fst (notify_step e info) = Inr ()"
  unfolding notify_step_def by (simp add: prog_simps split: sum.split)

lemma calls_notify:
  "calls (snd (notify_step e info)) = [SendNotification ''ChromaDesk Update'' (notification_body info)]"
  unfolding notify_step_def notification_body_def by (simp add: prog_simps split: sum.split)

lemma fst_download_step:
  "fst (download_step e cfg info td ld) =
    (case ensure_wallpaper_dir e of Inl ex \<Rightarrow> Inl ex
     | Inr dir_ok \<Rightarrow>
       if \<not> dir_ok then Inl (RuntimeError ''Headless: Cannot create wallpaper directory.'')
       else (case get_wallpaper_dir e of Inl ex \<Rightarrow> Inl ex
       | Inr wd \<Rightarrow> (case date info of None \<Rightarrow> Inl (missing_key ''date'')
       | Some d \<Rightarrow> (case full_url info of None \<Rightarrow> Inl (missing_key ''full_url'')
       | Some u \<Rightarrow> (case get_bing_filename e d u of Inl ex \<Rightarrow> Inl ex
       | Inr fn \<Rightarrow> (case is_file e (joinpath wd fn) of Inl ex \<Rightarrow> Inl ex
       | Inr ex \<Rightarrow>
          if ex then fst (apply_step e cfg info td (joinpath wd fn) True)
          else (case download_image e u (joinpath wd fn) of Inl ex \<Rightarrow> Inl ex
          | Inr ok \<Rightarrow> fst (apply_step e cfg info td (joinpath wd fn) ok))))))))"
  unfolding download_step_def
  by (simp add: prog_simps split: sum.split option.split)

lemma calls_download_step:
  "calls (snd (download_step e cfg info td ld)) =
    EnsureWallpaperDir #
    (case ensure_wallpaper_dir e of Inl ex \<Rightarrow> []
     | Inr dir_ok \<Rightarrow>
       if \<not> dir_ok then []
       else GetWallpaperDir # (case get_wallpaper_dir e of Inl ex \<Rightarrow> []
       | Inr wd \<Rightarrow> (case date info of None \<Rightarrow> []
       | Some d \<Rightarrow> (case full_url info of None \<Rightarrow> []
       | Some u \<Rightarrow> GetBingFilename d u # (case get_bing_filename e d u of Inl ex \<Rightarrow> []
       | Inr fn \<Rightarrow> IsFile (joinpath wd fn) # (case is_file e (joinpath wd fn) of Inl ex \<Rightarrow> []
       | Inr ex \<Rightarrow>
          if ex then calls (snd (apply_step e cfg info td (joinpath wd fn) True))
          else DownloadImage u (joinpath wd fn) #
          (case download_image e u (joinpath wd fn) of Inl ex \<Rightarrow> []
          | Inr ok \<Rightarrow> calls (snd (apply_step e cfg info td (joinpath wd fn) ok)))))))))"
  unfolding download_step_def
  by (simp add: prog_simps split: sum.split option.split)


lemma fst_record_step:
  "fst (record_step e cfg info td) =
    (case set_setting e ''State'' ''last_update_date'' td of Inl ex \<Rightarrow> Inl ex
     | Inr written \<Rightarrow> (case keep_history cfg of Inl ex \<Rightarrow> Inl ex
     | Inr keep_count \<Rightarrow> (case cleanup_wallpaper_history e keep_count of Inl ex \<Rightarrow> Inl ex
     | Inr removed \<Rightarrow> Inr True)))"
  unfolding record_step_def
  by (simp add: prog_simps fst_notify split: sum.split)

lemma calls_record_step:
  "calls (snd (record_step e cfg info td)) =
    SetSetting ''State'' ''last_update_date'' td #
    (case set_setting e ''State'' ''last_update_date'' td of Inl ex \<Rightarrow> []
     | Inr written \<Rightarrow> (case keep_history cfg of Inl ex \<Rightarrow> []
     | Inr keep_count \<Rightarrow> CleanupWallpaperHistory keep_count #
         (case cleanup_wallpaper_history e keep_count of Inl ex \<Rightarrow> []
          | Inr removed \<Rightarrow> [SendNotification ''ChromaDesk Update'' (notification_body info)])))"
  unfolding record_step_def
  by (simp add: prog_simps fst_notify calls_notify split: sum.split)

lemma fst_apply_step:
  "fst (apply_step e cfg info td sp ok) =
    (if ok then
       (case set_gnome_wallpaper e sp of Inl ex \<Rightarrow> Inl ex
        | Inr set_ok \<Rightarrow> if set_ok then fst (record_step e cfg info td) else Inr False)
     else Inr False)"
  unfolding apply_step_def
  by (simp add: prog_simps split: sum.split)

lemma calls_apply_step:
  "calls (snd (apply_step e cfg info td sp ok)) =
    (if ok then
       SetGnomeWallpaper sp #
       (case set_gnome_wallpaper e sp of Inl ex \<Rightarrow> []
        | Inr set_ok \<Rightarrow> if set_ok then calls (snd (record_step e cfg info td)) else [])
     else [])"
  unfolding apply_step_def
  by (simp add: prog_simps split: sum.split)

lemma fst_freshness_step:
  "fst (freshness_step e cfg info) =
    (case last_update_date cfg of Inl ex \<Rightarrow> Inl ex
     | Inr ld \<Rightarrow> if ld = today e then Inr True
                 else fst (download_step e cfg info (today e) ld))"
  unfolding freshness_step_def
  by (simp add: prog_simps split: sum.split)

lemma calls_freshness_step:
  "calls (snd (freshness_step e cfg info)) =
    (case last_update_date cfg of Inl ex \<Rightarrow> []
     | Inr ld \<Rightarrow> if ld = today e then []
                 else calls (snd (download_step e cfg info (today e) ld)))"
  unfolding freshness_step_def
  by (simp add: prog_simps split: sum.split)


lemma fst_update_body:
  "load_config e = Inr cfg \<Longrightarrow>
   fst (update_body e) =
    (case enabled cfg of Inl ex \<Rightarrow> Inl ex
     | Inr on \<Rightarrow>
        if on then
          (case region cfg of Inl ex \<Rightarrow> Inl ex
           | Inr r \<Rightarrow> (case fetch_bing_wallpaper_info e r of Inl ex \<Rightarrow> Inl ex
           | Inr None \<Rightarrow> Inr False
           | Inr (Some info) \<Rightarrow>
               if has_full_url (Some info) then fst (freshness_step e cfg info)
               else Inr False))
        else Inr True)"
  unfolding update_body_def
  by (simp add: prog_simps has_full_url_def split: sum.split option.split)

lemma calls_update_body:
  "load_config e = Inr cfg \<Longrightarrow>
   calls (snd (update_body e)) =
    LoadConfig #
    (case enabled cfg of Inl ex \<Rightarrow> []
     | Inr on \<Rightarrow>
        if on then
          (case region cfg of Inl ex \<Rightarrow> []
           | Inr r \<Rightarrow> FetchBingWallpaperInfo r #
           (case fetch_bing_wallpaper_info e r of Inl ex \<Rightarrow> []
           | Inr None \<Rightarrow> []
           | Inr (Some info) \<Rightarrow>
               if has_full_url (Some info) then calls (snd (freshness_step e cfg info))
               else []))
        else [])"
  unfolding update_body_def
  by (simp add: prog_simps has_full_url_def split: sum.split option.split)

lemma body_load_config_raises:
  "load_config e = Inl ex \<Longrightarrow>
   fst (update_body e) = Inl ex \<and> calls (snd (update_body e)) = [LoadConfig]"
  unfolding update_body_def by (simp add: prog_simps)

lemma logs_at_update_body:
  "load_config e = Inr cfg \<Longrightarrow> enabled cfg = Inr True \<Longrightarrow> region cfg = Inr r \<Longrightarrow>
   fetch_bing_wallpaper_info e r = Inr (Some info) \<Longrightarrow> has_full_url (Some info) \<Longrightarrow>
   l \<noteq> INFO \<Longrightarrow>
   logs_at l (snd (update_body e)) = logs_at l (snd (freshness_step e cfg info))"
  by (simp add: snd_body_enabled)

lemma logs_at_freshness_step:
  "last_update_date cfg = Inr ld \<Longrightarrow> ld \<noteq> today e \<Longrightarrow> l \<noteq> INFO \<Longrightarrow>
   logs_at l (snd (freshness_step e cfg info))
     = logs_at l (snd (download_step e cfg info (today e) ld))"
  unfolding freshness_step_def by (simp add: prog_simps)

text \<open>Either the run ends at or before the freshness decision, or it enters step 5.\<close>

lemma run_cases [case_names early download]:
  obtains
    (early) "calls (trace e) = [] \<or> calls (trace e) = [LoadConfig] \<or>
             (\<exists>r. calls (trace e) = [LoadConfig, FetchBingWallpaperInfo r])"
  | (download) cfg r info ld where
      "import_core e = Inr ()" "load_config e = Inr cfg" "enabled cfg = Inr True"
      "region cfg = Inr r" "fetch_bing_wallpaper_info e r = Inr (Some info)"
      "has_full_url (Some info)" "last_update_date cfg = Inr ld" "ld \<noteq> today e"
      "calls (trace e) = LoadConfig # FetchBingWallpaperInfo r #
         calls (snd (download_step e cfg info (today e) ld))"
      "fst (update_body e) = fst (download_step e cfg info (today e) ld)"
proof (cases "import_core e")
  case (Inl ex)
  then have "calls (trace e) = []" by (simp add: calls_trace_body)
  then show ?thesis using early by simp
next
  case imp: (Inr u)
  show ?thesis
  proof (cases "load_config e")
    case (Inl ex)
    then have "calls (trace e) = [LoadConfig]"
      using imp body_load_config_raises [of e ex] by (simp add: calls_trace_body)
    then show ?thesis using early by simp
  next
    case cfg: (Inr cfg)
    have tr: "calls (trace e) = calls (snd (update_body e))"
      using imp by (simp add: calls_trace_body)
    show ?thesis
    proof (cases "enabled cfg = Inr True \<and> (\<exists>r. region cfg = Inr r)")
      case False
      then have "calls (trace e) = [LoadConfig]"
        using cfg tr by (auto simp add: calls_update_body split: sum.splits)
      then show ?thesis using early by simp
    next
      case True
      then obtain r where en: "enabled cfg = Inr True" and r: "region cfg = Inr r" by blast
      show ?thesis
      proof (cases "\<exists>info. fetch_bing_wallpaper_info e r = Inr (Some info) \<and> has_full_url (Some info)")
        case False
        then have "calls (trace e) = [LoadConfig, FetchBingWallpaperInfo r]"
          using cfg tr en r by (auto simp add: calls_update_body split: sum.splits option.splits)
        then show ?thesis using early by blast
      next
        case True
        then obtain info where f: "fetch_bing_wallpaper_info e r = Inr (Some info)"
          and u: "has_full_url (Some info)" by blast
        have trF: "calls (trace e) = LoadConfig # FetchBingWallpaperInfo r #
                     calls (snd (freshness_step e cfg info))"
          using cfg tr en r f u by (simp add: calls_update_body)
        have fstF: "fst (update_body e) = fst (freshness_step e cfg info)"
          using cfg en r f u by (simp add: fst_update_body)
        show ?thesis
        proof (cases "\<exists>ld. last_update_date cfg = Inr ld \<and> ld \<noteq> today e")
          case False
          then have "calls (snd (freshness_step e cfg info)) = []"
            by (auto simp add: calls_freshness_step split: sum.splits)
          then show ?thesis using early trF by simp
        next
          case True
          then obtain ld where ld: "last_update_date cfg = Inr ld" "ld \<noteq> today e" by blast
          show ?thesis
            using download [of cfg r info ld] imp cfg en r f u ld trF fstF
            by (simp add: calls_freshness_step fst_freshness_step)
        qed
      qed
    qed
  qed
qed

lemmas late_simps = calls_download_step calls_apply_step calls_record_step
  fst_download_step fst_apply_step fst_record_step


lemma exit_code_import_raises:
  "import_core e = Inl ex \<Longrightarrow>
   exit_code e = (case ex of ImportError m \<Rightarrow> Inr 1 | _ \<Rightarrow> Inl ex)"
  unfolding exit_code_def main_def headless_def
  by (simp add: prog_simps split: error.split)

subsection \<open>Log lines above INFO\<close>

lemma logs_at_notify_step:
  "logs_at l (snd (notify_step e info)) =
    (case send_notification e ''ChromaDesk Update'' (notification_body info) of
       Inl ex \<Rightarrow>
         if l = WARNING then [''Headless: Failed to send notification: '' @ str_error ex]
         else []
     | Inr u \<Rightarrow> [])"
  unfolding notify_step_def notification_body_def
  by (cases l) (simp_all add: prog_simps split: sum.split)

lemma logs_at_record_step:
  "l \<noteq> INFO \<Longrightarrow>
   logs_at l (snd (record_step e cfg info td)) =
    (case set_setting e ''State'' ''last_update_date'' td of Inl ex \<Rightarrow> []
     | Inr written \<Rightarrow> (case keep_history cfg of Inl ex \<Rightarrow> []
     | Inr keep_count \<Rightarrow> (case cleanup_wallpaper_history e keep_count of Inl ex \<Rightarrow> []
     | Inr removed \<Rightarrow>
        (case send_notification e ''ChromaDesk Update'' (notification_body info) of
           Inl ex \<Rightarrow>
             if l = WARNING then [''Headless: Failed to send notification: '' @ str_error ex]
             else []
         | Inr u \<Rightarrow> []))))"
  unfolding record_step_def
  by (cases l) (simp_all add: prog_simps fst_notify logs_at_notify_step split: sum.split)

lemma logs_at_apply_step:
  "l \<noteq> INFO \<Longrightarrow>
   logs_at l (snd (apply_step e cfg info td sp ok)) =
    (if ok then
       (case set_gnome_wallpaper e sp of Inl ex \<Rightarrow> []
        | Inr set_ok \<Rightarrow>
            if set_ok then logs_at l (snd (record_step e cfg info td))
            else if l = ERROR then [''Headless: Failed to set wallpaper.''] else [])
     else if l = ERROR then [''Headless: Failed to download image.''] else [])"
  unfolding apply_step_def
  by (cases l) (simp_all add: prog_simps split: sum.split)

lemma logs_at_download_step:
  "l \<noteq> INFO \<Longrightarrow>
   logs_at l (snd (download_step e cfg info td ld)) =
    (case ensure_wallpaper_dir e of Inl ex \<Rightarrow> []
     | Inr dir_ok \<Rightarrow>
       if \<not> dir_ok then []
       else (case get_wallpaper_dir e of Inl ex \<Rightarrow> []
       | Inr wd \<Rightarrow> (case date info of None \<Rightarrow> []
       | Some d \<Rightarrow> (case full_url info of None \<Rightarrow> []
       | Some u \<Rightarrow> (case get_bing_filename e d u of Inl ex \<Rightarrow> []
       | Inr fn \<Rightarrow> (case is_file e (joinpath wd fn) of Inl ex \<Rightarrow> []
       | Inr ex \<Rightarrow>
          if ex then logs_at l (snd (apply_step e cfg info td (joinpath wd fn) True))
          else (case download_image e u (joinpath wd fn) of Inl ex \<Rightarrow> []
          | Inr ok \<Rightarrow> logs_at l (snd (apply_step e cfg info td (joinpath wd fn) ok)))))))))"
  unfolding download_step_def
  by (cases l) (simp_all add: prog_simps split: sum.split option.split)

lemmas late_logs = logs_at_download_step logs_at_apply_step logs_at_record_step

text \<open>
  Once step 5 is entered, the lines above INFO of the whole run are those of step 5,
  followed by the CRITICAL line of the outer handler when step 5 raised.
\<close>

lemma logs_at_trace_download:
  assumes "import_core e = Inr ()" "load_config e = Inr cfg" "enabled cfg = Inr True"
    "region cfg = Inr r" "fetch_bing_wallpaper_info e r = Inr (Some info)"
    "has_full_url (Some info)" "last_update_date cfg = Inr ld" "ld \<noteq> today e"
    "l \<noteq> INFO"
  shows "logs_at l (trace e) =
           logs_at l (snd (download_step e cfg info (today e) ld)) @
           (case fst (download_step e cfg info (today e) ld) of
              Inl ex \<Rightarrow>
                if l = CRITICAL
                then [''Headless: An error occurred during the update process: ''
                        @ str_error ex]
                else []
            | Inr b \<Rightarrow> [])"
proof -
  have b: "fst (update_body e) = fst (download_step e cfg info (today e) ld)"
    using assms by (simp add: fst_update_body fst_freshness_step)
  have "logs_at l (snd (update_body e)) = logs_at l (snd (download_step e cfg info (today e) ld))"
    using assms by (simp add: logs_at_update_body logs_at_freshness_step)
  then show ?thesis
    using assms(1,9) b by (cases l) (simp_all add: trace_body split: sum.split)
qed

subsection \<open>Step 5 and what follows it\<close>

text \<open>
  Properties of step 5 (download), step 6 (apply), step 7 (state write and pruning)
  and step 8 (notification), read off the decision trees. The trace of such a run is
  \<^verbatim>\<open>load_config\<close>, the fetch, and then the calls of step 5.
\<close>

lemma existing_file_download_step:
  "IsFile p \<in> set (calls (snd (download_step e cfg info td ld))) \<longrightarrow>
   is_file e p = Inr True \<longrightarrow>
   filter is_download (calls (snd (download_step e cfg info td ld))) = [] \<and>
   SetGnomeWallpaper p \<in> set (calls (snd (download_step e cfg info td ld))) \<and>
   (\<exists>wd d u fn. get_wallpaper_dir e = Inr wd \<and>
      GetBingFilename d u \<in> set (calls (snd (download_step e cfg info td ld))) \<and>
      get_bing_filename e d u = Inr fn \<and> p = joinpath wd fn)"
  by (auto simp add: late_simps split: sum.splits option.splits if_splits)

lemma download_step_calls_nonempty:
  "calls (snd (download_step e cfg info td ld)) \<noteq> []"
  by (simp add: calls_download_step)

lemma state_write_download_step:
  "filter is_state_write (calls (snd (download_step e cfg info td ld))) =
     (if \<exists>p. SetGnomeWallpaper p \<in> set (calls (snd (download_step e cfg info td ld))) \<and>
              set_gnome_wallpaper e p = Inr True
      then [SetSetting ''State'' ''last_update_date'' td] else [])"
  by (auto simp add: late_simps split: sum.splits option.splits if_splits)

lemma filename_query_download_step:
  "filter is_filename_query (calls (snd (download_step e cfg info td ld))) = [] \<or>
   (\<exists>d u. date info = Some d \<and> full_url info = Some u \<and>
      filter is_filename_query (calls (snd (download_step e cfg info td ld)))
        = [GetBingFilename d u])"
  by (auto simp add: late_simps split: sum.splits option.splits if_splits)

lemma state_write_outcome_download_step:
  "SetSetting s k v \<in> set (calls (snd (download_step e cfg info td ld))) \<longrightarrow>
   fst (download_step e cfg info td ld) =
     (case set_setting e s k v of Inl ex \<Rightarrow> Inl ex
      | Inr written \<Rightarrow> (case keep_history cfg of Inl ex \<Rightarrow> Inl ex
      | Inr keep_count \<Rightarrow> (case cleanup_wallpaper_history e keep_count of Inl ex \<Rightarrow> Inl ex
      | Inr removed \<Rightarrow> Inr True))) \<and>
   logs_at ERROR (snd (download_step e cfg info td ld)) = [] \<and>
   logs_at CRITICAL (snd (download_step e cfg info td ld)) = []"
  by (auto simp add: late_simps late_logs split: sum.splits option.splits if_splits)

lemma pruning_download_step:
  "SetGnomeWallpaper p \<in> set (calls (snd (download_step e cfg info td ld))) \<longrightarrow>
   set_gnome_wallpaper e p = Inr True \<longrightarrow>
   filter is_prune (calls (snd (download_step e cfg info td ld))) =
     (case set_setting e ''State'' ''last_update_date'' td of Inl ex \<Rightarrow> []
      | Inr written \<Rightarrow> (case keep_history cfg of Inl ex \<Rightarrow> []
      | Inr keep_count \<Rightarrow> [CleanupWallpaperHistory keep_count])) \<and>
   fst (download_step e cfg info td ld) =
     (case set_setting e ''State'' ''last_update_date'' td of Inl ex \<Rightarrow> Inl ex
      | Inr written \<Rightarrow> (case keep_history cfg of Inl ex \<Rightarrow> Inl ex
      | Inr keep_count \<Rightarrow> (case cleanup_wallpaper_history e keep_count of Inl ex \<Rightarrow> Inl ex
      | Inr removed \<Rightarrow> Inr True)))"
  by (auto simp add: late_simps split: sum.splits option.splits if_splits)

lemma notification_download_step:
  "SendNotification t m \<in> set (calls (snd (download_step e cfg info td ld))) \<longrightarrow>
   fst (download_step e cfg info td ld) = Inr True \<and>
   logs_at WARNING (snd (download_step e cfg info td ld)) =
     (case send_notification e t m of
        Inl ex \<Rightarrow> [''Headless: Failed to send notification: '' @ str_error ex]
      | Inr u \<Rightarrow> [])"
  by (auto simp add: late_simps late_logs split: sum.splits option.splits if_splits)

lemma successful_download_step_notifies:
  "fst (download_step e cfg info td ld) = Inr True \<longrightarrow>
   SendNotification ''ChromaDesk Update'' (notification_body info)
     \<in> set (calls (snd (download_step e cfg info td ld)))"
  by (auto simp add: late_simps split: sum.splits option.splits if_splits)

lemma counts_download_step:
  "length (filter is_download (calls (snd (download_step e cfg info td ld)))) \<le> 1 \<and>
   length (filter is_apply (calls (snd (download_step e cfg info td ld)))) \<le> 1"
  by (simp add: late_simps split: sum.split option.split)

lemma one_download_one_apply_per_run:
  "length (filter is_download (calls (trace e))) \<le> 1 \<and>
   length (filter is_apply (calls (trace e))) \<le> 1"
proof (cases e rule: run_cases)
  case early
  then show ?thesis by auto
next
  case (download cfg r info ld)
  then show ?thesis
    using counts_download_step [of e cfg info "today e" ld] by simp
qed

subsection \<open>The notification cannot change the verdict\<close>

lemma fst_download_step_ignores_notification:
  "fst (download_step (e\<lparr>send_notification := n\<rparr>) cfg info td ld)
     = fst (download_step e cfg info td ld)"
  by (simp add: fst_download_step fst_apply_step fst_record_step
        split: sum.split option.split)

lemma fst_update_body_ignores_notification:
  "fst (update_body (e\<lparr>send_notification := n\<rparr>)) = fst (update_body e)"
proof (cases "load_config e")
  case (Inl ex)
  then show ?thesis
    using body_load_config_raises [of e ex]
      body_load_config_raises [of "e\<lparr>send_notification := n\<rparr>" ex]
    by simp
next
  case (Inr cfg)
  then show ?thesis
    using fst_update_body [of e cfg] fst_update_body [of "e\<lparr>send_notification := n\<rparr>" cfg]
    by (simp add: fst_freshness_step fst_download_step_ignores_notification
          split: sum.split option.split)
qed

lemma exit_code_ignores_notification:
  "exit_code (e\<lparr>send_notification := n\<rparr>) = exit_code e"
proof (cases "import_core e")
  case (Inl ex)
  then show ?thesis
    using exit_code_import_raises [of e ex]
      exit_code_import_raises [of "e\<lparr>send_notification := n\<rparr>" ex]
    by simp
next
  case (Inr u)
  then show ?thesis
    by (simp add: exit_code_body fst_update_body_ignores_notification)
qed

text \<open>
  A run that calls \<^verbatim>\<open>send_notification\<close> returns exit code 0, whatever the call does.
\<close>

lemma reached_notification_is_swallowed:
  assumes "SendNotification t m \<in> set (calls (trace e))"
  shows "exit_code e = Inr 0 \<and>
         exit_code (e\<lparr>send_notification := n\<rparr>) = Inr 0 \<and>
         logs_at WARNING (trace e) =
           (case send_notification e t m of
              Inl ex \<Rightarrow> [''Headless: Failed to send notification: '' @ str_error ex]
            | Inr u \<Rightarrow> [])"
proof (cases e rule: run_cases)
  case early
  then show ?thesis using assms by auto
next
  case (download cfg r info ld)
  have d: "SendNotification t m \<in> set (calls (snd (download_step e cfg info (today e) ld)))"
    using assms download by simp
  note facts = notification_download_step [of t m e cfg info "today e" ld, rule_format, OF d]
  have w: "logs_at WARNING (trace e)
             = logs_at WARNING (snd (download_step e cfg info (today e) ld))"
    using logs_at_trace_download [of e cfg r info ld WARNING] download facts by simp
  have "exit_code e = Inr 0"
    using download(1,10) facts by (simp add: exit_code_body)
  then show ?thesis
    using facts w by (simp add: exit_code_ignores_notification)
qed

subsection \<open>What a successful run did\<close>

lemma successful_enabled_run_fetched:
  assumes "exit_code e = Inr 0" and "load_config e = Inr cfg" and "enabled cfg = Inr True"
  obtains r info where "import_core e = Inr ()" "region cfg = Inr r"
    "fetch_bing_wallpaper_info e r = Inr (Some info)" "has_full_url (Some info)"
proof -
  have imp: "import_core e = Inr ()"
  proof (cases "import_core e")
    case (Inl ex)
    then show ?thesis
      using assms(1) exit_code_import_raises [of e ex] by (simp split: error.splits)
  next
    case (Inr u)
    then show ?thesis by simp
  qed
  then have "fst (update_body e) = Inr True"
    using assms(1) by (simp add: exit_code_body split: if_splits)
  then have "\<exists>r info. region cfg = Inr r \<and> fetch_bing_wallpaper_info e r = Inr (Some info) \<and>
               has_full_url (Some info)"
    using assms(2,3) by (auto simp add: fst_update_body split: sum.splits option.splits if_splits)
  then show ?thesis using that imp by blast
qed

lemma successful_download_step_writes_state:
  "fst (download_step e cfg info td ld) = Inr True \<longrightarrow>
   filter is_state_write (calls (snd (download_step e cfg info td ld)))
     = [SetSetting ''State'' ''last_update_date'' td]"
  by (auto simp add: late_simps split: sum.splits option.splits if_splits)

lemma successful_enabled_run_recorded:
  assumes "exit_code e = Inr 0" and "load_config e = Inr cfg" and "enabled cfg = Inr True"
  shows "last_update_date cfg = Inr (today e) \<or>
         filter is_state_write (calls (trace e))
           = [SetSetting ''State'' ''last_update_date'' (today e)]"
proof -
  obtain r info where imp: "import_core e = Inr ()" and r: "region cfg = Inr r"
    and f: "fetch_bing_wallpaper_info e r = Inr (Some info)" and u: "has_full_url (Some info)"
    using successful_enabled_run_fetched [OF assms] by blast
  have b: "fst (update_body e) = Inr True"
    using assms(1) imp by (simp add: exit_code_body split: if_splits)
  then have fr: "fst (freshness_step e cfg info) = Inr True"
    using assms(2,3) r f u by (simp add: fst_update_body)
  show ?thesis
  proof (cases "last_update_date cfg = Inr (today e)")
    case True
    then show ?thesis by simp
  next
    case False
    then obtain ld where ld: "last_update_date cfg = Inr ld" "ld \<noteq> today e"
      using fr by (auto simp add: fst_freshness_step split: sum.splits)
    then have d: "fst (download_step e cfg info (today e) ld) = Inr True"
      using fr by (simp add: fst_freshness_step)
    have "calls (trace e) = LoadConfig # FetchBingWallpaperInfo r #
            calls (snd (download_step e cfg info (today e) ld))"
      using imp assms(2,3) r f u ld
      by (simp add: calls_trace_body calls_update_body calls_freshness_step)
    then show ?thesis
      using successful_download_step_writes_state [of e cfg info "today e" ld, rule_format, OF d]
      by simp
  qed
qed

subsection \<open>The concrete runs, evaluated\<close>

lemmas scenario_defs = env_scenario_def cfg_scenario_def info_scenario_def has_full_url_def
  joinpath_def notification_body_def

lemmas calls_eval = calls_trace_body calls_freshness_step calls_download_step
  calls_apply_step calls_record_step

lemmas exit_eval = exit_code_body fst_freshness_step fst_download_step fst_apply_step
  fst_record_step

lemma calls_env_scenario:
  "calls (trace env_scenario) =
     [LoadConfig, FetchBingWallpaperInfo ''en-US'', EnsureWallpaperDir, GetWallpaperDir,
      GetBingFilename ''2024-01-01'' ''https://x/img.jpg'',
      IsFile ''/wallpapers/2024-01-01_bing.jpg'',
      DownloadImage ''https://x/img.jpg'' ''/wallpapers/2024-01-01_bing.jpg'',
      SetGnomeWallpaper ''/wallpapers/2024-01-01_bing.jpg'',
      SetSetting ''State'' ''last_update_date'' ''2024-01-02'',
      CleanupWallpaperHistory 7,
      SendNotification ''ChromaDesk Update'' ''Wallpaper updated successfully to: T'']"
  by (simp add: scenario_defs calls_eval calls_update_body [of _ cfg_scenario])

lemma exit_code_env_scenario: "exit_code env_scenario = Inr 0"
  by (simp add: scenario_defs exit_eval fst_update_body [of _ cfg_scenario])


lemma calls_env_existing_file:
  "calls (trace env_existing_file) =
     [LoadConfig, FetchBingWallpaperInfo ''en-US'', EnsureWallpaperDir, GetWallpaperDir,
      GetBingFilename ''2024-01-01'' ''https://x/img.jpg'',
      IsFile ''/wallpapers/2024-01-01_bing.jpg'',
      SetGnomeWallpaper ''/wallpapers/2024-01-01_bing.jpg'',
      SetSetting ''State'' ''last_update_date'' ''2024-01-02'',
      CleanupWallpaperHistory 7,
      SendNotification ''ChromaDesk Update'' ''Wallpaper updated successfully to: T'']"
  by (simp add: env_existing_file_def scenario_defs calls_eval
        calls_update_body [of _ cfg_scenario])

lemma calls_env_image_date_recorded:
  "calls (trace env_image_date_recorded) =
     [LoadConfig, FetchBingWallpaperInfo ''en-US'', EnsureWallpaperDir, GetWallpaperDir,
      GetBingFilename ''2024-01-01'' ''https://x/img.jpg'',
      IsFile ''/wallpapers/2024-01-01_bing.jpg'',
      DownloadImage ''https://x/img.jpg'' ''/wallpapers/2024-01-01_bing.jpg'',
      SetGnomeWallpaper ''/wallpapers/2024-01-01_bing.jpg'',
      SetSetting ''State'' ''last_update_date'' ''2024-01-02'',
      CleanupWallpaperHistory 7,
      SendNotification ''ChromaDesk Update'' ''Wallpaper updated successfully to: T'']"
  by (simp add: env_image_date_recorded_def scenario_defs calls_eval
        calls_update_body [of _ "cfg_scenario\<lparr>last_update_date := Inr ''2024-01-01''\<rparr>"])

lemma calls_env_write_rejected:
  "calls (trace env_write_rejected) =
     [LoadConfig, FetchBingWallpaperInfo ''en-US'', EnsureWallpaperDir, GetWallpaperDir,
      GetBingFilename ''2024-01-01'' ''https://x/img.jpg'',
      IsFile ''/wallpapers/2024-01-01_bing.jpg'',
      DownloadImage ''https://x/img.jpg'' ''/wallpapers/2024-01-01_bing.jpg'',
      SetGnomeWallpaper ''/wallpapers/2024-01-01_bing.jpg'',
      SetSetting ''State'' ''last_update_date'' ''2024-01-02'',
      CleanupWallpaperHistory 7,
      SendNotification ''ChromaDesk Update'' ''Wallpaper updated successfully to: T'']"
  by (simp add: env_write_rejected_def scenario_defs calls_eval
        calls_update_body [of _ cfg_scenario])

lemma calls_env_write_raises:
  "calls (trace env_write_raises) =
     [LoadConfig, FetchBingWallpaperInfo ''en-US'', EnsureWallpaperDir, GetWallpaperDir,
      GetBingFilename ''2024-01-01'' ''https://x/img.jpg'',
      IsFile ''/wallpapers/2024-01-01_bing.jpg'',
      DownloadImage ''https://x/img.jpg'' ''/wallpapers/2024-01-01_bing.jpg'',
      SetGnomeWallpaper ''/wallpapers/2024-01-01_bing.jpg'',
      SetSetting ''State'' ''last_update_date'' ''2024-01-02'']"
  by (simp add: env_write_raises_def scenario_defs calls_eval
        calls_update_body [of _ cfg_scenario])

lemma exit_code_env_write_raises: "exit_code env_write_raises = Inr 1"
  by (simp add: env_write_raises_def scenario_defs exit_eval
        fst_update_body [of _ cfg_scenario])

lemma calls_env_prune_raises:
  "calls (trace env_prune_raises) =
     [LoadConfig, FetchBingWallpaperInfo ''en-US'', EnsureWallpaperDir, GetWallpaperDir,
      GetBingFilename ''2024-01-01'' ''https://x/img.jpg'',
      IsFile ''/wallpapers/2024-01-01_bing.jpg'',
      DownloadImage ''https://x/img.jpg'' ''/wallpapers/2024-01-01_bing.jpg'',
      SetGnomeWallpaper ''/wallpapers/2024-01-01_bing.jpg'',
      SetSetting ''State'' ''last_update_date'' ''2024-01-02'',
      CleanupWallpaperHistory 7]"
  by (simp add: env_prune_raises_def scenario_defs calls_eval
        calls_update_body [of _ cfg_scenario])

lemma exit_code_env_prune_raises: "exit_code env_prune_raises = Inr 1"
  by (simp add: env_prune_raises_def scenario_defs exit_eval
        fst_update_body [of _ cfg_scenario])

lemma calls_env_bad_keep_history:
  "calls (trace env_bad_keep_history) =
     [LoadConfig, FetchBingWallpaperInfo ''en-US'', EnsureWallpaperDir, GetWallpaperDir,
      GetBingFilename ''2024-01-01'' ''https://x/img.jpg'',
      IsFile ''/wallpapers/2024-01-01_bing.jpg'',
      DownloadImage ''https://x/img.jpg'' ''/wallpapers/2024-01-01_bing.jpg'',
      SetGnomeWallpaper ''/wallpapers/2024-01-01_bing.jpg'',
      SetSetting ''State'' ''last_update_date'' ''2024-01-02'']"
  by (simp add: env_bad_keep_history_def scenario_defs calls_eval
        calls_update_body
          [of _ "cfg_scenario\<lparr>keep_history := Inl (OtherError ''invalid literal for int()'')\<rparr>"])

lemma exit_code_env_bad_keep_history: "exit_code env_bad_keep_history = Inr 1"
  by (simp add: env_bad_keep_history_def scenario_defs exit_eval
        fst_update_body
          [of _ "cfg_scenario\<lparr>keep_history := Inl (OtherError ''invalid literal for int()'')\<rparr>"])

lemma calls_env_prune_and_notify_raise:
  "calls (trace env_prune_and_notify_raise) =
     [LoadConfig, FetchBingWallpaperInfo ''en-US'', EnsureWallpaperDir, GetWallpaperDir,
      GetBingFilename ''2024-01-01'' ''https://x/img.jpg'',
      IsFile ''/wallpapers/2024-01-01_bing.jpg'',
      DownloadImage ''https://x/img.jpg'' ''/wallpapers/2024-01-01_bing.jpg'',
      SetGnomeWallpaper ''/wallpapers/2024-01-01_bing.jpg'',
      SetSetting ''State'' ''last_update_date'' ''2024-01-02'',
      CleanupWallpaperHistory 7]"
  by (simp add: env_prune_and_notify_raise_def env_prune_raises_def scenario_defs calls_eval
        calls_update_body [of _ cfg_scenario])

lemma exit_code_env_prune_and_notify_raise: "exit_code env_prune_and_notify_raise = Inr 1"
  by (simp add: env_prune_and_notify_raise_def env_prune_raises_def scenario_defs exit_eval
        fst_update_body [of _ cfg_scenario])

lemma calls_env_notify_raises:
  "calls (trace env_notify_raises) =
     [LoadConfig, FetchBingWallpaperInfo ''en-US'', EnsureWallpaperDir, GetWallpaperDir,
      GetBingFilename ''2024-01-01'' ''https://x/img.jpg'',
      IsFile ''/wallpapers/2024-01-01_bing.jpg'',
      DownloadImage ''https://x/img.jpg'' ''/wallpapers/2024-01-01_bing.jpg'',
      SetGnomeWallpaper ''/wallpapers/2024-01-01_bing.jpg'',
      SetSetting ''State'' ''last_update_date'' ''2024-01-02'',
      CleanupWallpaperHistory 7,
      SendNotification ''ChromaDesk Update'' ''Wallpaper updated successfully to: T'']"
  by (simp add: env_notify_raises_def scenario_defs calls_eval
        calls_update_body [of _ cfg_scenario])

lemma calls_env_retry:
  "calls (trace env_retry) =
     [LoadConfig, FetchBingWallpaperInfo ''en-US'', EnsureWallpaperDir, GetWallpaperDir,
      GetBingFilename ''2024-01-01'' ''https://x/img.jpg'',
      IsFile ''/wallpapers/2024-01-01_bing.jpg'',
      SetGnomeWallpaper ''/wallpapers/2024-01-01_bing.jpg'']"
  by (simp add: env_retry_def env_existing_file_def scenario_defs calls_eval
        calls_update_body [of _ cfg_scenario])

lemma calls_env_download_fails:
  "calls (trace env_download_fails) =
     [LoadConfig, FetchBingWallpaperInfo ''en-US'', EnsureWallpaperDir, GetWallpaperDir,
      GetBingFilename ''2024-01-01'' ''https://x/img.jpg'',
      IsFile ''/wallpapers/2024-01-01_bing.jpg'',
      DownloadImage ''https://x/img.jpg'' ''/wallpapers/2024-01-01_bing.jpg'']"
  by (simp add: env_download_fails_def scenario_defs calls_eval
        calls_update_body [of _ cfg_scenario])

section \<open>The claims\<close>



text \<open>
  Claim C2. Two runs on the same day with updates enabled and the same metadata: if the
  first run returned success, it either found today's date recorded or called
  \<^verbatim>\<open>set_setting\<close> with today's date; and if the second run then reads today's date as
  \<^verbatim>\<open>last_update_date\<close>, it compares it with today, returns success and makes no
  download, no apply call and no state write, so that the two runs together make at
  most one download and at most one apply call.
\<close>

theorem second_run_same_day_is_noop:
  assumes "load_config e1 = Inr cfg1" and "enabled cfg1 = Inr True"
    and "exit_code e1 = Inr 0"
    and "import_core e2 = Inr ()" and "load_config e2 = Inr cfg2"
    and "enabled cfg2 = Inr True" and "region cfg2 = region cfg1"
    and "today e2 = today e1" and "last_update_date cfg2 = Inr (today e1)"
    and "fetch_bing_wallpaper_info e2 = fetch_bing_wallpaper_info e1"
  shows "(last_update_date cfg1 = Inr (today e1) \<or>
          filter is_state_write (calls (trace e1))
            = [SetSetting ''State'' ''last_update_date'' (today e1)]) \<and>
         exit_code e2 = Inr 0 \<and>
         filter is_download (calls (trace e2)) = [] \<and>
         filter is_apply (calls (trace e2)) = [] \<and>
         filter is_state_write (calls (trace e2)) = [] \<and>
         length (filter is_download (calls (trace e1) @ calls (trace e2))) \<le> 1 \<and>
         length (filter is_apply (calls (trace e1) @ calls (trace e2))) \<le> 1"
proof -
  obtain r info where r: "region cfg1 = Inr r"
    and f: "fetch_bing_wallpaper_info e1 r = Inr (Some info)" and u: "has_full_url (Some info)"
    using successful_enabled_run_fetched [OF assms(3) assms(1) assms(2)] by blast
  have r2: "region cfg2 = Inr r" using r assms(7) by simp
  have f2: "fetch_bing_wallpaper_info e2 r = Inr (Some info)" using f assms(10) by simp
  have ld2: "last_update_date cfg2 = Inr (today e2)" using assms(8,9) by simp
  have c2: "calls (trace e2) = [LoadConfig, FetchBingWallpaperInfo r]"
    using assms(4,5,6) r2 f2 u ld2
    by (simp add: calls_trace_body calls_update_body [of e2 cfg2] calls_freshness_step)
  have x2: "exit_code e2 = Inr 0"
    using assms(4,5,6) r2 f2 u ld2
    by (simp add: exit_code_body fst_update_body [of e2 cfg2] fst_freshness_step)
  show ?thesis
    using c2 x2 one_download_one_apply_per_run [of e1]
      successful_enabled_run_recorded [OF assms(3) assms(1) assms(2)]
    by simp
qed

theorem second_run_same_day_is_noop_witness:
  "load_config env_scenario = Inr cfg_scenario \<and> enabled cfg_scenario = Inr True \<and>
   exit_code env_scenario = Inr 0 \<and>
   import_core env_second_run = Inr () \<and>
   load_config env_second_run = Inr (cfg_scenario\<lparr>last_update_date := Inr ''2024-01-02''\<rparr>) \<and>
   enabled (cfg_scenario\<lparr>last_update_date := Inr ''2024-01-02''\<rparr>) = Inr True \<and>
   region (cfg_scenario\<lparr>last_update_date := Inr ''2024-01-02''\<rparr>) = region cfg_scenario \<and>
   today env_second_run = today env_scenario \<and>
   last_update_date (cfg_scenario\<lparr>last_update_date := Inr ''2024-01-02''\<rparr>)
     = Inr (today env_scenario) \<and>
   fetch_bing_wallpaper_info env_second_run = fetch_bing_wallpaper_info env_scenario \<and>
   filter is_state_write (calls (trace env_scenario))
     = [SetSetting ''State'' ''last_update_date'' (today env_scenario)] \<and>
   exit_code env_second_run = Inr 0 \<and>
   filter is_download (calls (trace env_second_run)) = [] \<and>
   filter is_apply (calls (trace env_second_run)) = [] \<and>
   filter is_state_write (calls (trace env_second_run)) = [] \<and>
   length (filter is_download (calls (trace env_scenario) @ calls (trace env_second_run))) \<le> 1 \<and>
   length (filter is_apply (calls (trace env_scenario) @ calls (trace env_second_run))) \<le> 1"
proof -
  let ?cfg2 = "cfg_scenario\<lparr>last_update_date := Inr ''2024-01-02''\<rparr>"
  have h1: "load_config env_scenario = Inr cfg_scenario"
    by (simp add: env_scenario_def)
  have h2: "enabled cfg_scenario = Inr True"
    by (simp add: cfg_scenario_def)
  have h3: "exit_code env_scenario = Inr 0"
    by (rule exit_code_env_scenario)
  have h4: "import_core env_second_run = Inr ()"
    by (simp add: env_second_run_def env_existing_file_def env_scenario_def)
  have h5: "load_config env_second_run = Inr ?cfg2"
    by (simp add: env_second_run_def)
  have h6: "enabled ?cfg2 = Inr True"
    by (simp add: cfg_scenario_def)
  have h7: "region ?cfg2 = region cfg_scenario"
    by simp
  have h8: "today env_second_run = today env_scenario"
    by (simp add: env_second_run_def env_existing_file_def)
  have h9: "last_update_date ?cfg2 = Inr (today env_scenario)"
    by (simp add: env_scenario_def)
  have h10: "fetch_bing_wallpaper_info env_second_run = fetch_bing_wallpaper_info env_scenario"
    by (simp add: env_second_run_def env_existing_file_def)
  have w: "filter is_state_write (calls (trace env_scenario))
             = [SetSetting ''State'' ''last_update_date'' (today env_scenario)]"
    by (simp add: calls_env_scenario) (simp add: env_scenario_def)
  show ?thesis
    using h1 h2 h3 h4 h5 h6 h7 h8 h9 h10 w
      second_run_same_day_is_noop [OF h1 h2 h3 h4 h5 h6 h7 h8 h9 h10]
    by blast
qed

text \<open>
  The two-run bound is a bound after a first run that succeeded. In the run with the
  file present and the apply call rejected, and in the run with the download failing,
  no state write is made; each of these two runs, made twice, makes two apply calls or
  two download calls.
\<close>

lemma unrecorded_run_is_repeated:
  "load_config env_retry = Inr cfg_scenario \<and> enabled cfg_scenario = Inr True \<and>
   filter is_state_write (calls (trace env_retry)) = [] \<and>
   length (filter is_apply (calls (trace env_retry) @ calls (trace env_retry))) = 2 \<and>
   load_config env_download_fails = Inr cfg_scenario \<and>
   filter is_state_write (calls (trace env_download_fails)) = [] \<and>
   length (filter is_download
             (calls (trace env_download_fails) @ calls (trace env_download_fails))) = 2"
  by (simp add: calls_env_retry calls_env_download_fails)
     (simp add: env_retry_def env_existing_file_def env_download_fails_def env_scenario_def
        cfg_scenario_def)

text \<open>
  Claim C3. With \<^verbatim>\<open>enabled = false\<close> in the configuration the headless run returns
  exit code 0 and its only collaborator call is \<^verbatim>\<open>load_config\<close>: no metadata fetch,
  no download, no directory creation, no state write, no pruning, no apply call and no
  notification.
\<close>

theorem disabled_is_success_without_effects:
  assumes "import_core e = Inr ()" and "load_config e = Inr cfg" and "enabled cfg = Inr False"
  shows "exit_code e = Inr 0 \<and> calls (trace e) = [LoadConfig]"
  using assms body_disabled [of e cfg] by (simp add: exit_code_body calls_trace_body)

theorem disabled_is_success_without_effects_witness:
  "import_core env_disabled = Inr () \<and>
   load_config env_disabled = Inr (cfg_scenario\<lparr>enabled := Inr False\<rparr>) \<and>
   enabled (cfg_scenario\<lparr>enabled := Inr False\<rparr>) = Inr False \<and>
   exit_code env_disabled = Inr 0 \<and> calls (trace env_disabled) = [LoadConfig]"
  using disabled_is_success_without_effects
          [of env_disabled "cfg_scenario\<lparr>enabled := Inr False\<rparr>"]
  by (simp add: env_disabled_def env_scenario_def)

text \<open>
  Claim C4. On an enabled run, if \<^verbatim>\<open>fetch_bing_wallpaper_info\<close> raises, returns nothing,
  or returns a result without a non-empty \<^verbatim>\<open>full_url\<close>, the run returns exit code 1
  and calls no collaborator after the fetch: nothing writes \<^verbatim>\<open>last_update_date\<close> or
  touches the wallpaper directory. A result without \<^verbatim>\<open>full_url\<close> takes the same branch
  and logs the same error line as a fetch that returned nothing.
\<close>

theorem fetch_failure_aborts:
  assumes "import_core e = Inr ()" and "load_config e = Inr cfg"
    and "enabled cfg = Inr True" and "region cfg = Inr r"
    and "case fetch_bing_wallpaper_info e r of Inl ex \<Rightarrow> True | Inr f \<Rightarrow> \<not> has_full_url f"
  shows "exit_code e = Inr 1 \<and>
         calls (trace e) = [LoadConfig, FetchBingWallpaperInfo r] \<and>
         logs_at ERROR (trace e) @ logs_at CRITICAL (trace e) =
           (case fetch_bing_wallpaper_info e r of
              Inl ex \<Rightarrow>
                [''Headless: An error occurred during the update process: '' @ str_error ex]
            | Inr f \<Rightarrow> [''Headless: Failed to fetch Bing wallpaper info.''])"
  using assms
  by (auto simp add: exit_code_body calls_trace_body trace_body fst_body_enabled
        snd_body_enabled str_bool_def split: sum.splits option.splits if_splits)

theorem fetch_failure_aborts_witness:
  "import_core env_no_url = Inr () \<and> load_config env_no_url = Inr cfg_scenario \<and>
   enabled cfg_scenario = Inr True \<and> region cfg_scenario = Inr ''en-US'' \<and>
   fetch_bing_wallpaper_info env_no_url ''en-US''
     = Inr (Some (info_scenario\<lparr>full_url := None\<rparr>)) \<and>
   \<not> has_full_url (Some (info_scenario\<lparr>full_url := None\<rparr>)) \<and>
   exit_code env_no_url = Inr 1 \<and>
   calls (trace env_no_url) = [LoadConfig, FetchBingWallpaperInfo ''en-US''] \<and>
   logs_at ERROR (trace env_no_url) @ logs_at CRITICAL (trace env_no_url) =
     [''Headless: Failed to fetch Bing wallpaper info.'']"
  using fetch_failure_aborts [of env_no_url cfg_scenario "''en-US''"]
  by (simp add: env_no_url_def env_scenario_def cfg_scenario_def info_scenario_def
        has_full_url_def)

text \<open>
  Claim C5. \<^verbatim>\<open>save_path.is_file()\<close> is asked once, for the path made of the wallpaper
  directory and the file name derived from the image's date and URL. If it answers true,
  the run makes no download call and applies that very file.
\<close>

theorem existing_file_is_reused:
  assumes "IsFile p \<in> set (calls (trace e))" and "is_file e p = Inr True"
  shows "filter is_download (calls (trace e)) = [] \<and>
         SetGnomeWallpaper p \<in> set (calls (trace e)) \<and>
         (\<exists>wd d u fn. get_wallpaper_dir e = Inr wd \<and>
            GetBingFilename d u \<in> set (calls (trace e)) \<and>
            get_bing_filename e d u = Inr fn \<and> p = joinpath wd fn)"
proof (cases e rule: run_cases)
  case early
  then show ?thesis using assms(1) by auto
next
  case (download cfg r info ld)
  then show ?thesis
    using assms existing_file_download_step [of p e cfg info "today e" ld] by auto
qed

theorem existing_file_is_reused_witness:
  "IsFile ''/wallpapers/2024-01-01_bing.jpg'' \<in> set (calls (trace env_existing_file)) \<and>
   is_file env_existing_file ''/wallpapers/2024-01-01_bing.jpg'' = Inr True \<and>
   filter is_download (calls (trace env_existing_file)) = [] \<and>
   SetGnomeWallpaper ''/wallpapers/2024-01-01_bing.jpg'' \<in> set (calls (trace env_existing_file)) \<and>
   (\<exists>wd d u fn. get_wallpaper_dir env_existing_file = Inr wd \<and>
      GetBingFilename d u \<in> set (calls (trace env_existing_file)) \<and>
      get_bing_filename env_existing_file d u = Inr fn \<and>
      ''/wallpapers/2024-01-01_bing.jpg'' = joinpath wd fn)"
proof -
  have h1: "IsFile ''/wallpapers/2024-01-01_bing.jpg'' \<in> set (calls (trace env_existing_file))"
    by (simp add: calls_env_existing_file)
  have h2: "is_file env_existing_file ''/wallpapers/2024-01-01_bing.jpg'' = Inr True"
    by (simp add: env_existing_file_def)
  show ?thesis
    using h1 h2 existing_file_is_reused [OF h1 h2] by blast
qed

text \<open>
  Claim C6. On an enabled run with a usable fetch result, the run stops after the fetch
  exactly when the recorded \<^verbatim>\<open>last_update_date\<close> equals today's wall-clock date,
  whatever date the image reports. The state is written exactly when the apply call
  returned true, and the value written is today's wall-clock date. The file name, when
  it is asked for, is derived from the date and URL of the fetched image.
\<close>

theorem wall_clock_date_is_the_key:
  assumes "import_core e = Inr ()" and "load_config e = Inr cfg"
    and "enabled cfg = Inr True" and "region cfg = Inr r"
    and "fetch_bing_wallpaper_info e r = Inr (Some info)" and "has_full_url (Some info)"
    and "last_update_date cfg = Inr ld"
  shows "(calls (trace e) = [LoadConfig, FetchBingWallpaperInfo r]) = (ld = today e) \<and>
         filter is_state_write (calls (trace e)) =
           (if \<exists>p. SetGnomeWallpaper p \<in> set (calls (trace e)) \<and>
                    set_gnome_wallpaper e p = Inr True
            then [SetSetting ''State'' ''last_update_date'' (today e)] else []) \<and>
         (filter is_filename_query (calls (trace e)) = [] \<or>
          (\<exists>d u. date info = Some d \<and> full_url info = Some u \<and>
             filter is_filename_query (calls (trace e)) = [GetBingFilename d u]))"
proof (cases "ld = today e")
  case True
  then have "calls (trace e) = [LoadConfig, FetchBingWallpaperInfo r]"
    using assms by (simp add: calls_trace_body calls_update_body calls_freshness_step)
  then show ?thesis using True by simp
next
  case False
  then have tr: "calls (trace e) = LoadConfig # FetchBingWallpaperInfo r #
                   calls (snd (download_step e cfg info (today e) ld))"
    using assms by (simp add: calls_trace_body calls_update_body calls_freshness_step)
  show ?thesis
    using False tr download_step_calls_nonempty [of e cfg info "today e" ld]
      state_write_download_step [of e cfg info "today e" ld]
      filename_query_download_step [of e cfg info "today e" ld]
    by simp
qed

theorem wall_clock_date_is_the_key_witness:
  "import_core env_image_date_recorded = Inr () \<and>
   load_config env_image_date_recorded
     = Inr (cfg_scenario\<lparr>last_update_date := Inr ''2024-01-01''\<rparr>) \<and>
   enabled (cfg_scenario\<lparr>last_update_date := Inr ''2024-01-01''\<rparr>) = Inr True \<and>
   region (cfg_scenario\<lparr>last_update_date := Inr ''2024-01-01''\<rparr>) = Inr ''en-US'' \<and>
   fetch_bing_wallpaper_info env_image_date_recorded ''en-US'' = Inr (Some info_scenario) \<and>
   has_full_url (Some info_scenario) \<and>
   last_update_date (cfg_scenario\<lparr>last_update_date := Inr ''2024-01-01''\<rparr>)
     = Inr ''2024-01-01'' \<and>
   date info_scenario = Some ''2024-01-01'' \<and>
   today env_image_date_recorded = ''2024-01-02'' \<and>
   calls (trace env_image_date_recorded) \<noteq> [LoadConfig, FetchBingWallpaperInfo ''en-US''] \<and>
   filter is_state_write (calls (trace env_image_date_recorded))
     = [SetSetting ''State'' ''last_update_date'' ''2024-01-02''] \<and>
   filter is_filename_query (calls (trace env_image_date_recorded))
     = [GetBingFilename ''2024-01-01'' ''https://x/img.jpg'']"
  using wall_clock_date_is_the_key
          [of env_image_date_recorded "cfg_scenario\<lparr>last_update_date := Inr ''2024-01-01''\<rparr>"
              "''en-US''" info_scenario "''2024-01-01''"]
  by (simp add: calls_env_image_date_recorded)
     (simp add: env_image_date_recorded_def scenario_defs)

text \<open>
  Claim C7, amended. After a successful apply, the value returned by \<^verbatim>\<open>set_setting\<close>
  is dropped: a state write that reports failure by returning false leaves the verdict
  to the steps that follow, so the run returns success when reading \<^verbatim>\<open>keep_history\<close>
  and the pruning call return, and main.py logs no error for it. A state write that
  raises is caught by the outer handler: it is logged at CRITICAL and the run returns
  exit code 1.
\<close>

theorem state_write_outcome:
  assumes "SetSetting s k v \<in> set (calls (trace e))" and "load_config e = Inr cfg"
  shows "exit_code e =
           (case set_setting e s k v of Inl ex \<Rightarrow> Inr 1
            | Inr written \<Rightarrow> (case keep_history cfg of Inl ex \<Rightarrow> Inr 1
            | Inr keep_count \<Rightarrow>
                (case cleanup_wallpaper_history e keep_count of Inl ex \<Rightarrow> Inr 1
                 | Inr removed \<Rightarrow> Inr 0))) \<and>
         logs_at CRITICAL (trace e) =
           (case set_setting e s k v of
              Inl ex \<Rightarrow> [''Headless: An error occurred during the update process: ''
                           @ str_error ex]
            | Inr written \<Rightarrow> (case keep_history cfg of
              Inl ex \<Rightarrow> [''Headless: An error occurred during the update process: ''
                           @ str_error ex]
            | Inr keep_count \<Rightarrow> (case cleanup_wallpaper_history e keep_count of
              Inl ex \<Rightarrow> [''Headless: An error occurred during the update process: ''
                           @ str_error ex]
            | Inr removed \<Rightarrow> []))) \<and>
         logs_at ERROR (trace e) = []"
proof (cases e rule: run_cases)
  case early
  then show ?thesis using assms(1) by auto
next
  case (download cfg' r info ld)
  then have [simp]: "cfg' = cfg" using assms(2) by simp
  have d: "SetSetting s k v \<in> set (calls (snd (download_step e cfg info (today e) ld)))"
    using assms(1) download by simp
  note facts = state_write_outcome_download_step [of s k v e cfg info "today e" ld, rule_format, OF d]
  have c: "logs_at CRITICAL (trace e) =
             logs_at CRITICAL (snd (download_step e cfg info (today e) ld)) @
             (case fst (download_step e cfg info (today e) ld) of
                Inl ex \<Rightarrow> [''Headless: An error occurred during the update process: ''
                             @ str_error ex]
              | Inr b \<Rightarrow> [])"
    using logs_at_trace_download [of e cfg r info ld CRITICAL] download
    by (simp split: sum.split)
  have er: "logs_at ERROR (trace e) = logs_at ERROR (snd (download_step e cfg info (today e) ld))"
    using logs_at_trace_download [of e cfg r info ld ERROR] download
    by (simp split: sum.split)
  show ?thesis
    using download(1,10) facts c er
    by (simp add: exit_code_body split: sum.split)
qed

theorem state_write_outcome_witness:
  "SetSetting ''State'' ''last_update_date'' ''2024-01-02''
     \<in> set (calls (trace env_write_rejected)) \<and>
   load_config env_write_rejected = Inr cfg_scenario \<and>
   set_setting env_write_rejected ''State'' ''last_update_date'' ''2024-01-02'' = Inr False \<and>
   exit_code env_write_rejected = Inr 0 \<and>
   logs_at CRITICAL (trace env_write_rejected) = [] \<and>
   logs_at ERROR (trace env_write_rejected) = []"
  using state_write_outcome
          [of "''State''" "''last_update_date''" "''2024-01-02''" env_write_rejected cfg_scenario]
  by (simp add: calls_env_write_rejected)
     (simp add: env_write_rejected_def env_scenario_def cfg_scenario_def)

text \<open>
  Claim C7 as stated does not hold when the write fails by raising: the apply call
  returned true, \<^verbatim>\<open>set_setting\<close> raises, and the run returns exit code 1.
\<close>

theorem state_write_exception_fails_the_run:
  "set_gnome_wallpaper env_write_raises ''/wallpapers/2024-01-01_bing.jpg'' = Inr True \<and>
   calls (trace env_write_raises) =
     [LoadConfig, FetchBingWallpaperInfo ''en-US'', EnsureWallpaperDir, GetWallpaperDir,
      GetBingFilename ''2024-01-01'' ''https://x/img.jpg'',
      IsFile ''/wallpapers/2024-01-01_bing.jpg'',
      DownloadImage ''https://x/img.jpg'' ''/wallpapers/2024-01-01_bing.jpg'',
      SetGnomeWallpaper ''/wallpapers/2024-01-01_bing.jpg'',
      SetSetting ''State'' ''last_update_date'' ''2024-01-02''] \<and>
   set_setting env_write_raises ''State'' ''last_update_date'' ''2024-01-02''
     = Inl (OtherError ''disk full'') \<and>
   exit_code env_write_raises = Inr 1"
  by (simp add: calls_env_write_raises exit_code_env_write_raises)
     (simp add: env_write_raises_def env_scenario_def)

text \<open>
  Claim C8, amended. After a successful apply, pruning is attempted exactly when the
  state write and the read of \<^verbatim>\<open>keep_history\<close> return without raising. The value
  \<^verbatim>\<open>cleanup_wallpaper_history\<close> returns is dropped, and the run then returns success;
  an exception raised by it, or by the two steps before it, is caught by the outer
  handler and the run returns exit code 1.
\<close>

theorem pruning_after_successful_apply:
  assumes "SetGnomeWallpaper p \<in> set (calls (trace e))"
    and "set_gnome_wallpaper e p = Inr True" and "load_config e = Inr cfg"
  shows "filter is_prune (calls (trace e)) =
           (case set_setting e ''State'' ''last_update_date'' (today e) of Inl ex \<Rightarrow> []
            | Inr written \<Rightarrow> (case keep_history cfg of Inl ex \<Rightarrow> []
            | Inr keep_count \<Rightarrow> [CleanupWallpaperHistory keep_count])) \<and>
         exit_code e =
           (case set_setting e ''State'' ''last_update_date'' (today e) of Inl ex \<Rightarrow> Inr 1
            | Inr written \<Rightarrow> (case keep_history cfg of Inl ex \<Rightarrow> Inr 1
            | Inr keep_count \<Rightarrow>
                (case cleanup_wallpaper_history e keep_count of Inl ex \<Rightarrow> Inr 1
                 | Inr removed \<Rightarrow> Inr 0)))"
proof (cases e rule: run_cases)
  case early
  then show ?thesis using assms(1) by auto
next
  case (download cfg' r info ld)
  then have [simp]: "cfg' = cfg" using assms(3) by simp
  have d: "SetGnomeWallpaper p \<in> set (calls (snd (download_step e cfg info (today e) ld)))"
    using assms(1) download by simp
  note facts = pruning_download_step [of p e cfg info "today e" ld, rule_format, OF d assms(2)]
  show ?thesis
    using download(1,9,10) facts
    by (simp add: exit_code_body split: sum.split)
qed

theorem pruning_after_successful_apply_witness:
  "SetGnomeWallpaper ''/wallpapers/2024-01-01_bing.jpg'' \<in> set (calls (trace env_scenario)) \<and>
   set_gnome_wallpaper env_scenario ''/wallpapers/2024-01-01_bing.jpg'' = Inr True \<and>
   load_config env_scenario = Inr cfg_scenario \<and>
   filter is_prune (calls (trace env_scenario)) = [CleanupWallpaperHistory 7] \<and>
   exit_code env_scenario = Inr 0"
  using pruning_after_successful_apply
          [of "''/wallpapers/2024-01-01_bing.jpg''" env_scenario cfg_scenario]
  by (simp add: calls_env_scenario) (simp add: env_scenario_def cfg_scenario_def)

text \<open>
  Claim C8 as stated does not hold: when \<^verbatim>\<open>cleanup_wallpaper_history\<close> raises after a
  successful apply, the run returns exit code 1; and when the stored
  \<^verbatim>\<open>keep_history\<close> does not convert to an integer, pruning is not attempted at all.
\<close>

theorem pruning_exception_fails_the_run:
  "set_gnome_wallpaper env_prune_raises ''/wallpapers/2024-01-01_bing.jpg'' = Inr True \<and>
   SetGnomeWallpaper ''/wallpapers/2024-01-01_bing.jpg'' \<in> set (calls (trace env_prune_raises)) \<and>
   cleanup_wallpaper_history env_prune_raises 7 = Inl (OtherError ''permission denied'') \<and>
   exit_code env_prune_raises = Inr 1 \<and>
   set_gnome_wallpaper env_bad_keep_history ''/wallpapers/2024-01-01_bing.jpg'' = Inr True \<and>
   SetGnomeWallpaper ''/wallpapers/2024-01-01_bing.jpg''
     \<in> set (calls (trace env_bad_keep_history)) \<and>
   filter is_prune (calls (trace env_bad_keep_history)) = [] \<and>
   exit_code env_bad_keep_history = Inr 1"
  by (simp add: calls_env_prune_raises exit_code_env_prune_raises
        calls_env_bad_keep_history exit_code_env_bad_keep_history)
     (simp add: env_prune_raises_def env_bad_keep_history_def env_scenario_def)

text \<open>
  Claim C9, amended. For every run in which the apply call succeeds and the state write,
  the read of \<^verbatim>\<open>keep_history\<close> and the pruning call that follow it return without
  raising, \<^verbatim>\<open>send_notification\<close> is called and the run returns exit code 0 whatever
  that call does: replacing its behaviour by any other leaves the exit code at 0. When
  it raises, the exception is swallowed and logged as the single WARNING line of the
  run.
\<close>

theorem notification_outcome_is_ignored:
  assumes "SetGnomeWallpaper p \<in> set (calls (trace e))"
    and "set_gnome_wallpaper e p = Inr True"
    and "load_config e = Inr cfg"
    and "set_setting e ''State'' ''last_update_date'' (today e) = Inr written"
    and "keep_history cfg = Inr keep_count"
    and "cleanup_wallpaper_history e keep_count = Inr removed"
  shows "exit_code e = Inr 0 \<and>
         exit_code (e\<lparr>send_notification := n\<rparr>) = Inr 0 \<and>
         (\<exists>t m. SendNotification t m \<in> set (calls (trace e)) \<and>
            logs_at WARNING (trace e) =
              (case send_notification e t m of
                 Inl ex \<Rightarrow> [''Headless: Failed to send notification: '' @ str_error ex]
               | Inr u \<Rightarrow> []))"
proof (cases e rule: run_cases)
  case early
  then show ?thesis using assms(1) by auto
next
  case (download cfg' r info ld)
  then have [simp]: "cfg' = cfg" using assms(3) by simp
  have d: "SetGnomeWallpaper p \<in> set (calls (snd (download_step e cfg info (today e) ld)))"
    using assms(1) download by simp
  have ok: "fst (download_step e cfg info (today e) ld) = Inr True"
    using pruning_download_step [of p e cfg info "today e" ld, rule_format, OF d assms(2)]
      assms(4,5,6)
    by simp
  have reached: "SendNotification ''ChromaDesk Update'' (notification_body info)
                   \<in> set (calls (trace e))"
    using successful_download_step_notifies [of e cfg info "today e" ld, rule_format, OF ok]
      download
    by simp
  note sw = reached_notification_is_swallowed [OF reached, of n]
  have w: "logs_at WARNING (trace e) =
             (case send_notification e ''ChromaDesk Update'' (notification_body info) of
                Inl ex \<Rightarrow> [''Headless: Failed to send notification: '' @ str_error ex]
              | Inr u \<Rightarrow> [])"
    by (rule sw [THEN conjunct2, THEN conjunct2])
  have "\<exists>t m. SendNotification t m \<in> set (calls (trace e)) \<and>
          logs_at WARNING (trace e) =
            (case send_notification e t m of
               Inl ex \<Rightarrow> [''Headless: Failed to send notification: '' @ str_error ex]
             | Inr u \<Rightarrow> [])"
    by (rule exI, rule exI, rule conjI [OF reached w])
  then show ?thesis
    by (intro conjI sw [THEN conjunct1] sw [THEN conjunct2, THEN conjunct1])
qed

theorem notification_outcome_is_ignored_witness:
  "SetGnomeWallpaper ''/wallpapers/2024-01-01_bing.jpg'' \<in> set (calls (trace env_notify_raises)) \<and>
   set_gnome_wallpaper env_notify_raises ''/wallpapers/2024-01-01_bing.jpg'' = Inr True \<and>
   load_config env_notify_raises = Inr cfg_scenario \<and>
   set_setting env_notify_raises ''State'' ''last_update_date'' (today env_notify_raises)
     = Inr True \<and>
   keep_history cfg_scenario = Inr 7 \<and>
   cleanup_wallpaper_history env_notify_raises 7 = Inr 0 \<and>
   send_notification env_notify_raises ''ChromaDesk Update''
       ''Wallpaper updated successfully to: T''
     = Inl (OtherError ''no notification daemon'') \<and>
   exit_code env_notify_raises = Inr 0 \<and>
   exit_code (env_notify_raises\<lparr>send_notification := send_notification env_scenario\<rparr>) = Inr 0 \<and>
   (\<exists>t m. SendNotification t m \<in> set (calls (trace env_notify_raises)) \<and>
      logs_at WARNING (trace env_notify_raises) =
        (case send_notification env_notify_raises t m of
           Inl ex \<Rightarrow> [''Headless: Failed to send notification: '' @ str_error ex]
         | Inr u \<Rightarrow> []))"
proof -
  have h1: "SetGnomeWallpaper ''/wallpapers/2024-01-01_bing.jpg''
              \<in> set (calls (trace env_notify_raises))"
    by (simp add: calls_env_notify_raises)
  have h2: "set_gnome_wallpaper env_notify_raises ''/wallpapers/2024-01-01_bing.jpg'' = Inr True"
    by (simp add: env_notify_raises_def env_scenario_def)
  have h3: "load_config env_notify_raises = Inr cfg_scenario"
    by (simp add: env_notify_raises_def env_scenario_def)
  have h4: "set_setting env_notify_raises ''State'' ''last_update_date'' (today env_notify_raises)
              = Inr True"
    by (simp add: env_notify_raises_def env_scenario_def)
  have h5: "keep_history cfg_scenario = Inr 7"
    by (simp add: cfg_scenario_def)
  have h6: "cleanup_wallpaper_history env_notify_raises 7 = Inr 0"
    by (simp add: env_notify_raises_def env_scenario_def)
  have h7: "send_notification env_notify_raises ''ChromaDesk Update''
              ''Wallpaper updated successfully to: T''
              = Inl (OtherError ''no notification daemon'')"
    by (simp add: env_notify_raises_def)
  note r = notification_outcome_is_ignored
             [OF h1 h2 h3 h4 h5 h6, of "send_notification env_scenario"]
  show ?thesis
    by (intro conjI h1 h2 h3 h4 h5 h6 h7 r [THEN conjunct1]
          r [THEN conjunct2, THEN conjunct1] r [THEN conjunct2, THEN conjunct2])
qed

text \<open>
  Claim C9 as stated, for every run in which apply succeeds, does not hold: in the run
  where pruning raises and there is no notification service, the apply call returned
  true and the run returns exit code 1.
\<close>

theorem successful_apply_is_not_success:
  "set_gnome_wallpaper env_prune_and_notify_raise ''/wallpapers/2024-01-01_bing.jpg'' = Inr True \<and>
   SetGnomeWallpaper ''/wallpapers/2024-01-01_bing.jpg''
     \<in> set (calls (trace env_prune_and_notify_raise)) \<and>
   exit_code env_prune_and_notify_raise = Inr 1"
  by (simp add: calls_env_prune_and_notify_raise exit_code_env_prune_and_notify_raise)
     (simp add: env_prune_and_notify_raise_def env_prune_raises_def env_scenario_def)

text \<open>
  Claim C10. On every enabled run the fetch is the second collaborator call, right after
  \<^verbatim>\<open>load_config\<close>, whatever \<^verbatim>\<open>last_update_date\<close> holds. When \<^verbatim>\<open>last_update_date\<close>
  already equals today's date the run consists of these two calls, and it returns exit
  code 0 only if the fetch returned a result with a \<^verbatim>\<open>full_url\<close>; otherwise it
  returns exit code 1.
\<close>

theorem fetch_precedes_freshness_check:
  assumes "import_core e = Inr ()" and "load_config e = Inr cfg"
    and "enabled cfg = Inr True" and "region cfg = Inr r"
  shows "take 2 (calls (trace e)) = [LoadConfig, FetchBingWallpaperInfo r] \<and>
         (last_update_date cfg = Inr (today e) \<longrightarrow>
            calls (trace e) = [LoadConfig, FetchBingWallpaperInfo r] \<and>
            exit_code e =
              Inr (if (case fetch_bing_wallpaper_info e r of
                         Inl ex \<Rightarrow> False | Inr f \<Rightarrow> has_full_url f) then 0 else 1))"
  using assms
  by (auto simp add: calls_trace_body calls_update_body exit_code_body fst_update_body
        calls_freshness_step fst_freshness_step has_full_url_def
        split: sum.splits option.splits)

theorem fetch_precedes_freshness_check_witness:
  "import_core env_recorded_offline = Inr () \<and>
   load_config env_recorded_offline = Inr (cfg_scenario\<lparr>last_update_date := Inr ''2024-01-02''\<rparr>) \<and>
   enabled (cfg_scenario\<lparr>last_update_date := Inr ''2024-01-02''\<rparr>) = Inr True \<and>
   region (cfg_scenario\<lparr>last_update_date := Inr ''2024-01-02''\<rparr>) = Inr ''en-US'' \<and>
   last_update_date (cfg_scenario\<lparr>last_update_date := Inr ''2024-01-02''\<rparr>)
     = Inr (today env_recorded_offline) \<and>
   fetch_bing_wallpaper_info env_recorded_offline ''en-US''
     = Inl (OtherError ''connection refused'') \<and>
   calls (trace env_recorded_offline) = [LoadConfig, FetchBingWallpaperInfo ''en-US''] \<and>
   exit_code env_recorded_offline = Inr 1"
  using fetch_precedes_freshness_check
          [of env_recorded_offline "cfg_scenario\<lparr>last_update_date := Inr ''2024-01-02''\<rparr>"
              "''en-US''"]
  by (simp add: env_recorded_offline_def env_scenario_def cfg_scenario_def)

end
